theory Spec2Isabelle
  imports Main "HOL-Library.Word"
begin

section \<open>Errors and cluster objects\<close>

text \<open>
  Go's \<open>error\<close> values as the controllers use them: the only inspection the code makes
  is \<open>errors.IsNotFound\<close> and \<open>meta.IsNoMatchError\<close>; every other error is opaque and
  carries its message. \<open>fmt.Errorf\<close> with \<open>%s\<close> or \<open>%v\<close> builds a fresh opaque error.
\<close>

datatype error = NotFound string | NoMatch string | Other string

fun Error :: "error \<Rightarrow> string" where
  "Error (NotFound m) = m"
| "Error (NoMatch m) = m"
| "Error (Other m) = m"

fun IsNotFound :: "error \<Rightarrow> bool" where
  "IsNotFound (NotFound m) = True"
| "IsNotFound e = False"

fun IsNoMatchError :: "error \<Rightarrow> bool" where
  "IsNoMatchError (NoMatch m) = True"
| "IsNoMatchError e = False"

text \<open>The \<open>%q\<close> verb of \<open>fmt\<close>, for the plain names it is applied to here.\<close>

definition quoted :: "string \<Rightarrow> string" where
  "quoted s = CHR 0x22 # s @ [CHR 0x22]"

type_synonym bytes = string

text \<open>A \<open>corev1.Secret\<close> and a \<open>corev1.ConfigMap\<close>: only their \<open>Data\<close> maps are read.\<close>

record Secret =
  secret_Data :: "string \<rightharpoonup> bytes"

record ConfigMap =
  cm_Data :: "string \<rightharpoonup> string"

text \<open>Indexing a Go map at a missing key gives the zero value, here the empty slice.\<close>

definition data_at :: "(string \<rightharpoonup> string) \<Rightarrow> string \<Rightarrow> string" where
  "data_at m k = (case m k of None \<Rightarrow> [] | Some v \<Rightarrow> v)"

section \<open>The LogCollector resource\<close>

text \<open>
  The fields of \<open>operatorv1.LogCollector\<close> that the controller reads or writes.
  \<open>CollectProcessPathOption\<close>, \<open>SyslogLogType\<close> and \<open>EncryptionOption\<close> are string types
  in Go; a pointer field is an \<open>option\<close>; a slice is a list (\<open>len\<close> of a nil slice is 0).
  The S3 and Splunk store specifications are never inspected, only tested for presence.
\<close>

type_synonym CollectProcessPathOption = string
type_synonym SyslogLogType = string
type_synonym EncryptionOption = string

text \<open>
  Modelled from the spec: the constants of package \<open>operatorv1\<close> (api/v1) are declared
  outside the files at hand; the names are the source's, the values those of the
  custom resource's enumerations.
\<close>

definition CollectProcessPathEnable :: CollectProcessPathOption where
  "CollectProcessPathEnable = ''Enabled''"

definition SyslogLogAudit :: SyslogLogType where "SyslogLogAudit = ''Audit''"
definition SyslogLogDNS :: SyslogLogType where "SyslogLogDNS = ''DNS''"
definition SyslogLogFlows :: SyslogLogType where "SyslogLogFlows = ''Flows''"
definition SyslogLogIDSEvents :: SyslogLogType where "SyslogLogIDSEvents = ''IDSEvents''"

definition EncryptionNone :: EncryptionOption where "EncryptionNone = ''None''"
definition EncryptionTLS :: EncryptionOption where "EncryptionTLS = ''TLS''"

record SyslogStoreSpec =
  Endpoint :: string
  LogTypes :: "SyslogLogType list"
  Encryption :: EncryptionOption

record AdditionalLogStoreSpec =
  S3 :: "string option"
  Syslog :: "SyslogStoreSpec option"
  Splunk :: "string option"

record EksCloudwatchLogsSpec =
  Region :: string
  GroupName :: string
  StreamPrefix :: string
  FetchInterval :: "32 word"

record AdditionalLogSourceSpec =
  EksCloudwatchLog :: "EksCloudwatchLogsSpec option"

record LogCollectorSpec =
  AdditionalStores :: "AdditionalLogStoreSpec option"
  AdditionalSources :: "AdditionalLogSourceSpec option"
  CollectProcessPath :: "CollectProcessPathOption option"
  MultiTenantManagementClusterNamespace :: string

type_synonym Condition = string

record LogCollectorStatus =
  State :: string
  Conditions :: "Condition list"

record LogCollector =
  Spec :: LogCollectorSpec
  Status :: LogCollectorStatus

section \<open>fillDefaults\<close>

text \<open>
  \<open>fillDefaults\<close> mutates the instance in place and returns the names of the fields
  it set; the model returns the updated instance together with that list. The three
  blocks of the source are kept apart, in the source's order.
\<close>

definition defaultCollectProcessPath :: "LogCollector \<Rightarrow> LogCollector \<times> string list" where
  "defaultCollectProcessPath instance =
     (if CollectProcessPath (Spec instance) = None
      then (instance\<lparr>Spec := (Spec instance)\<lparr>CollectProcessPath := Some CollectProcessPathEnable\<rparr>\<rparr>,
            [''CollectProcessPath''])
      else (instance, []))"

definition defaultSyslog :: "SyslogStoreSpec \<Rightarrow> SyslogStoreSpec \<times> string list" where
  "defaultSyslog syslog =
     (let (s1, m1) =
            (if length (LogTypes syslog) = 0
             then (syslog\<lparr>LogTypes := [SyslogLogAudit, SyslogLogDNS, SyslogLogFlows]\<rparr>,
                   [''AdditionalStores.Syslog.LogTypes''])
             else (syslog, []));
          (s2, m2) =
            (if length (Encryption s1) = 0
             then (s1\<lparr>Encryption := EncryptionNone\<rparr>, [''AdditionalStores.Syslog.Encryption''])
             else (s1, []))
      in (s2, m1 @ m2))"

definition fillDefaults :: "LogCollector \<Rightarrow> LogCollector \<times> string list" where
  "fillDefaults instance0 =
     (let (instance, modifiedFields) = defaultCollectProcessPath instance0
      in case AdditionalStores (Spec instance) of
           None \<Rightarrow> (instance, modifiedFields)
         | Some stores \<Rightarrow>
             (case Syslog stores of
                None \<Rightarrow> (instance, modifiedFields)
              | Some syslog \<Rightarrow>
                  (let (syslog', m) = defaultSyslog syslog
                   in (instance\<lparr>Spec := (Spec instance)
                         \<lparr>AdditionalStores := Some (stores\<lparr>Syslog := Some syslog'\<rparr>)\<rparr>\<rparr>,
                       modifiedFields @ m))))"

section \<open>getEksCloudwatchLogConfig\<close>

text \<open>
  Modelled from the spec: the names below are constants of package \<open>render\<close> and the
  operator namespace of package \<open>common\<close>, declared outside the files at hand. No result
  depends on their values.
\<close>

definition EksLogForwarderSecret :: string where
  "EksLogForwarderSecret = ''tigera-eks-log-forwarder-secret''"
definition EksLogForwarderAwsId :: string where "EksLogForwarderAwsId = ''aws-id''"
definition EksLogForwarderAwsKey :: string where "EksLogForwarderAwsKey = ''aws-key''"
definition OperatorNamespace :: string where "OperatorNamespace = ''tigera-operator''"

record EksCloudwatchLogConfig =
  AwsId :: bytes
  AwsKey :: bytes
  AwsRegion :: string
  cfg_GroupName :: string
  cfg_StreamPrefix :: string
  cfg_FetchInterval :: "32 word"

text \<open>
  The client is represented by what its \<open>Get\<close> answers for a secret of a given name and
  namespace: the secret, or the error (a missing secret is a \<open>NotFound\<close> error).
  The result is the Go pair: \<open>Inl\<close> the error, \<open>Inr None\<close> for \<open>(nil, nil)\<close>.
\<close>

type_synonym secret_client = "string \<Rightarrow> string \<Rightarrow> error + Secret"

definition getEksCloudwatchLogConfig ::
  "secret_client \<Rightarrow> 32 word \<Rightarrow> string \<Rightarrow> string \<Rightarrow> string \<Rightarrow> error + EksCloudwatchLogConfig option" where
  "getEksCloudwatchLogConfig client interval0 region groupName prefix0 =
     (if region = [] then Inl (Other ''missing AWS region info'')
      else if groupName = [] then Inl (Other ''missing Cloudwatch log group name'')
      else
        let prefix = (if prefix0 = [] then ''kube-apiserver-audit-'' else prefix0);
            interval = (if interval0 = 0 then 60 else interval0)
        in case client EksLogForwarderSecret OperatorNamespace of
             Inl err \<Rightarrow>
               if IsNotFound err then Inr None
               else Inl (Other (''failed to read Secret '' @ quoted EksLogForwarderSecret @ '': '' @ Error err))
           | Inr secret \<Rightarrow>
               if length (data_at (secret_Data secret) EksLogForwarderAwsId) = 0 \<or>
                  length (data_at (secret_Data secret) EksLogForwarderAwsKey) = 0
               then Inl (Other ''incomplete Cloudwatch credentials'')
               else Inr (Some \<lparr>AwsId = data_at (secret_Data secret) EksLogForwarderAwsId,
                               AwsKey = data_at (secret_Data secret) EksLogForwarderAwsKey,
                               AwsRegion = region,
                               cfg_GroupName = groupName,
                               cfg_StreamPrefix = prefix,
                               cfg_FetchInterval = interval\<rparr>))"

section \<open>Reconcile results, status manager calls and the reconcile trace\<close>

text \<open>
  \<open>reconcile.Result\<close>: the controllers only ever set \<open>RequeueAfter\<close>; the empty
  result has it 0. Durations are counted in seconds.
\<close>

record Result =
  RequeueAfter :: nat

definition Result_empty :: Result where
  "Result_empty = \<lparr>RequeueAfter = 0\<rparr>"

text \<open>
  Modelled from the spec: \<open>utils.StandardRetry\<close>, the standard retry interval, is a
  constant of package \<open>utils\<close> declared outside the files at hand (30 seconds).
\<close>

definition StandardRetry :: nat where
  "StandardRetry = 30"

datatype TigeraStatusReason =
    ResourceReadError | ResourcePatchError | ResourceNotReady | ResourceNotFound
  | ResourceCreateError | ResourceValidationError | ResourceUpdateError
  | ResourceRenderingError | CertificateError

text \<open>The calls a reconcile makes on its \<open>status.StatusManager\<close>.\<close>

datatype status_call =
    OnCRNotFound
  | OnCRFound
  | SetDegraded TigeraStatusReason string "error option"
  | ClearDegraded
  | SetMetaData
  | AddToStatusManager string

text \<open>
  What the shared status aggregator holds after a sequence of calls: \<open>SetDegraded\<close>
  raises the degraded condition with its reason, \<open>ClearDegraded\<close> clears it, the other
  calls leave it as it is.
\<close>

fun degraded_after :: "TigeraStatusReason option \<Rightarrow> status_call list \<Rightarrow> TigeraStatusReason option" where
  "degraded_after d [] = d"
| "degraded_after d (SetDegraded reason msg err # cs) = degraded_after (Some reason) cs"
| "degraded_after d (ClearDegraded # cs) = degraded_after None cs"
| "degraded_after d (c # cs) = degraded_after d cs"

section \<open>Objects the LogCollector controller handles\<close>

text \<open>
  Values of other packages that the controller only passes on are kept opaque
  (a name or a list of names); where the controller builds or inspects them they have
  their fields.
\<close>

type_synonym KeyPair = string
type_synonym License = "string list"
type_synonym ClusterConfig = string
type_synonym Tenant = string
type_synonym PacketCaptureAPI = string
type_synonym ManagementClusterConnection = string
type_synonym ProductVariant = string

record Certificate =
  cert_Name :: string
  cert_Namespace :: string
  cert_PEM :: bytes

text \<open>A trusted bundle is the list of the certificates added to it, in order.\<close>

type_synonym TrustedBundle = "Certificate list"

definition AddCertificates :: "TrustedBundle \<Rightarrow> Certificate \<Rightarrow> TrustedBundle" where
  "AddCertificates bundle c = bundle @ [c]"

record ManagementClusterTLS =
  tls_SecretName :: string

record ManagementCluster =
  mc_Address :: string
  mc_TLS :: "ManagementClusterTLS option"

record NonClusterHost =
  nch_Endpoint :: string

record InstallationSpec =
  Variant :: ProductVariant
  KubernetesProvider_IsEKS :: bool
  inst_CertificateManagement :: "string option"
  ControlPlaneReplicas :: "32 word option"
  ImagePullSecrets :: "string list"

record S3Credential =
  KeyId :: bytes
  KeySecret :: bytes

record SplunkCredential =
  Token :: bytes

record FluentdFilters =
  Flow :: string
  DNS :: string

datatype OSType = OSTypeLinux | OSTypeWindows

record FluentdConfiguration =
  fc_LogCollector :: LogCollector
  fc_ESClusterConfig :: "ClusterConfig option"
  fc_S3Credential :: "S3Credential option"
  fc_SplkCredential :: "SplunkCredential option"
  fc_Filters :: "FluentdFilters option"
  fc_EKSConfig :: "EksCloudwatchLogConfig option"
  fc_PullSecrets :: "Secret list"
  fc_Installation :: InstallationSpec
  fc_ClusterDomain :: string
  fc_OSType :: OSType
  fc_FluentdKeyPair :: "KeyPair option"
  fc_TrustedBundle :: TrustedBundle
  fc_ManagedCluster :: bool
  fc_UseSyslogCertificate :: bool
  fc_Tenant :: "Tenant option"
  fc_ExternalElastic :: bool
  fc_EKSLogForwarderKeyPair :: "KeyPair option"
  fc_PacketCapture :: "PacketCaptureAPI option"
  fc_NonClusterHost :: "NonClusterHost option"

text \<open>\<open>rcertificatemanagement.NewKeyPairOption (keyPair, initContainer, csr)\<close>.\<close>

type_synonym KeyPairOption = "KeyPair option \<times> bool \<times> bool"

record CertificateManagementConfig =
  cmc_Namespace :: string
  cmc_ServiceAccounts :: "string list"
  cmc_KeyPairOptions :: "KeyPairOption list"
  cmc_TrustedBundle :: "TrustedBundle option"

record SetUpConfiguration =
  su_OpenShift :: bool
  su_Installation :: InstallationSpec
  su_PullSecrets :: "Secret list"
  su_Namespace :: string
  su_PSS :: string
  su_CreateNamespace :: bool

text \<open>
  The rendered components of the LogCollector controller: \<open>render.NewSetup\<close>,
  \<open>render.Fluentd\<close> and \<open>rcertificatemanagement.CertificateManagement\<close> each wrap the
  configuration they are given.
\<close>

datatype lc_component =
    NewSetup SetUpConfiguration
  | Fluentd FluentdConfiguration
  | CertificateManagement CertificateManagementConfig

text \<open>
  Modelled from the spec: names declared in packages \<open>render\<close>, \<open>monitor\<close> and
  \<open>networkpolicy\<close>, outside the files at hand. No result depends on their values.
\<close>

definition LogCollectorNamespace :: string where "LogCollectorNamespace = ''tigera-fluentd''"
definition FluentdNodeName :: string where "FluentdNodeName = ''fluentd-node''"
definition EKSLogForwarderName :: string where "EKSLogForwarderName = ''eks-log-forwarder''"
definition PSSPrivileged :: string where "PSSPrivileged = ''privileged''"
definition FluentdPrometheusTLSSecretName :: string where
  "FluentdPrometheusTLSSecretName = ''tigera-fluentd-prometheus-tls''"
definition EKSLogForwarderTLSSecretName :: string where
  "EKSLogForwarderTLSSecretName = ''tigera-eks-log-forwarder-tls''"
definition PrometheusClientTLSSecretName :: string where
  "PrometheusClientTLSSecretName = ''calico-node-prometheus-client-tls''"
definition TigeraLinseedSecret :: string where "TigeraLinseedSecret = ''tigera-secure-linseed-cert''"
definition VoltronLinseedPublicCert :: string where
  "VoltronLinseedPublicCert = ''tigera-voltron-linseed-certs-public''"
definition S3FluentdSecretName :: string where "S3FluentdSecretName = ''log-collector-s3-credentials''"
definition S3KeyIdName :: string where "S3KeyIdName = ''key-id''"
definition S3KeySecretName :: string where "S3KeySecretName = ''key-secret''"
definition SplunkFluentdTokenSecretName :: string where
  "SplunkFluentdTokenSecretName = ''logcollector-splunk-credentials''"
definition SplunkFluentdSecretTokenKey :: string where "SplunkFluentdSecretTokenKey = ''token''"
definition FluentdFilterConfigMapName :: string where "FluentdFilterConfigMapName = ''fluentd-filters''"
definition FluentdFilterFlowName :: string where "FluentdFilterFlowName = ''flow''"
definition FluentdFilterDNSName :: string where "FluentdFilterDNSName = ''dns''"
definition SyslogCAConfigMapName :: string where "SyslogCAConfigMapName = ''syslog-ca''"
definition TLSCertKey :: string where "TLSCertKey = ''tls.crt''"
definition TigeraStatusReady :: string where "TigeraStatusReady = ''Ready''"

section \<open>What one reconcile of the LogCollector controller sees\<close>

text \<open>
  The reconciler's own fields (the two ready flags are read once per reconcile), the
  request, and the answers of the cluster and of the packages outside the files at hand.
  A Go pair \<open>(value, err)\<close> whose value is only used when \<open>err\<close> is nil is a sum; where the
  code goes on with the value after a tolerated error it is the pair itself.
\<close>

record ReconcileLogCollector =
  provider_IsOpenShift :: bool
  clusterDomain :: string
  licenseAPIReady :: bool
  tierWatchReady :: bool
  multiTenant :: bool
  externalElastic :: bool

record Request =
  req_Name :: string
  req_Namespace :: string

record lc_cluster =
  lc_Get_LogCollector :: "error + LogCollector"
  lc_ParseEndpoint :: "string \<Rightarrow> error option"
  lc_Get_TigeraStatus :: "error + Condition list"
  lc_UpdateStatusCondition :: "Condition list \<Rightarrow> Condition list \<Rightarrow> Condition list"
  lc_Status_Update_conditions :: "error option"
  lc_Patch :: "error option"
  lc_IsAPIServerReady :: bool
  lc_Get_Tier :: "error option"
  lc_FetchLicenseKey :: "error + License"
  lc_GetInstallation :: "error + ProductVariant \<times> InstallationSpec"
  lc_GetNetworkingPullSecrets :: "error + Secret list"
  lc_GetManagementClusterConnection :: "ManagementClusterConnection option \<times> error option"
  lc_GetManagementCluster :: "error + ManagementCluster option"
  lc_CertificateManager_Create :: "error option"
  lc_GetOrCreateKeyPair :: "string \<Rightarrow> error + KeyPair"
  lc_GetCertificate :: "string \<Rightarrow> string \<Rightarrow> error + Certificate option"
  lc_GetTenant :: "string \<Rightarrow> error + Tenant option"
  lc_CreateTrustedBundle :: "Certificate list \<Rightarrow> error + TrustedBundle"
  lc_IsFeatureActive :: "License \<Rightarrow> string \<Rightarrow> bool"
  lc_Get_Secret :: secret_client
  lc_Get_ConfigMap :: "string \<Rightarrow> string \<Rightarrow> error + ConfigMap"
  lc_GetElasticsearchClusterConfig :: "error + ClusterConfig"
  lc_GetPacketCaptureAPI :: "PacketCaptureAPI option \<times> error option"
  lc_GetNonClusterHost :: "error + NonClusterHost option"
  lc_ApplyImageSet :: "lc_component \<Rightarrow> error option"
  lc_CreateOrUpdateOrDelete :: "lc_component \<Rightarrow> error option"
  lc_HasWindowsNodes :: "error + bool"
  lc_IsAvailable :: bool
  lc_Status_Update_state :: "error option"

text \<open>
  The trace of a reconcile: its calls on the status manager and its writes to the
  cluster, in program order. Reads are not recorded.
\<close>

datatype lc_call =
    StatusManager status_call
  | Patch LogCollector
  | StatusUpdate LogCollector
  | ApplyImageSet lc_component
  | CreateOrUpdateOrDelete lc_component

text \<open>
  A stretch of the function body either returns from \<open>Reconcile\<close> (\<open>Inl\<close>: the result,
  the error and the calls made) or falls through with the values it computed and the
  calls made (\<open>Inr\<close>). \<open>andThen\<close> runs the next stretch after a fall-through.
\<close>

type_synonym ('c, 'a) step = "(Result \<times> error option \<times> 'c list) + ('a \<times> 'c list)"

definition andThen :: "('c, 'a) step \<Rightarrow> ('a \<Rightarrow> ('c, 'b) step) \<Rightarrow> ('c, 'b) step" where
  "andThen m f =
     (case m of
        Inl x \<Rightarrow> Inl x
      | Inr (a, cs) \<Rightarrow>
          (case f a of
             Inl (res, err, cs') \<Rightarrow> Inl (res, err, cs @ cs')
           | Inr (b, cs') \<Rightarrow> Inr (b, cs @ cs')))"

text \<open>\<open>r.status.SetDegraded (reason, msg, err, log)\<close> followed by \<open>return res, ret\<close>.\<close>

definition degraded_return ::
  "TigeraStatusReason \<Rightarrow> string \<Rightarrow> error option \<Rightarrow> Result \<Rightarrow> error option \<Rightarrow> (lc_call, 'a) step" where
  "degraded_return reason msg err res ret = Inl (res, ret, [StatusManager (SetDegraded reason msg err)])"

definition Join :: "string list \<Rightarrow> string \<Rightarrow> string" where
  "Join elems sep = (case elems of [] \<Rightarrow> [] | e # es \<Rightarrow> e @ concat (map (\<lambda>x. sep @ x) es))"

definition ResourceName :: string where
  "ResourceName = ''log-collector''"

definition ExportLogsFeature :: string where
  "ExportLogsFeature = ''export-logs''"

section \<open>The helpers of the LogCollector controller\<close>

definition GetLogCollector :: "lc_cluster \<Rightarrow> error + LogCollector" where
  "GetLogCollector cli =
     (case lc_Get_LogCollector cli of
        Inl err \<Rightarrow> Inl err
      | Inr instance \<Rightarrow>
          (case AdditionalStores (Spec instance) of
             None \<Rightarrow> Inr instance
           | Some stores \<Rightarrow>
               (case Syslog stores of
                  None \<Rightarrow> Inr instance
                | Some syslog \<Rightarrow>
                    (case lc_ParseEndpoint cli (Endpoint syslog) of
                       Some err \<Rightarrow> Inl (Other (''syslog config has invalid Endpoint: '' @ Error err))
                     | None \<Rightarrow> Inr instance))))"

definition getS3Credential :: "secret_client \<Rightarrow> error + S3Credential option" where
  "getS3Credential client =
     (case client S3FluentdSecretName OperatorNamespace of
        Inl err \<Rightarrow>
          if IsNotFound err then Inr None
          else Inl (Other (''failed to read secret '' @ quoted S3FluentdSecretName @ '': '' @ Error err))
      | Inr secret \<Rightarrow>
          if data_at (secret_Data secret) S3KeyIdName = []
          then Inl (Other (''expected secret '' @ quoted S3FluentdSecretName @
                           '' to have a field named '' @ quoted S3KeyIdName))
          else if data_at (secret_Data secret) S3KeySecretName = []
          then Inl (Other (''expected secret '' @ quoted S3FluentdSecretName @
                           '' to have a field named '' @ quoted S3KeySecretName))
          else Inr (Some \<lparr>KeyId = data_at (secret_Data secret) S3KeyIdName,
                          KeySecret = data_at (secret_Data secret) S3KeySecretName\<rparr>))"

definition getSplunkCredential :: "secret_client \<Rightarrow> error + SplunkCredential option" where
  "getSplunkCredential client =
     (case client SplunkFluentdTokenSecretName OperatorNamespace of
        Inl err \<Rightarrow>
          if IsNotFound err then Inr None
          else Inl (Other (''failed to read secret '' @ quoted SplunkFluentdTokenSecretName @ '': '' @ Error err))
      | Inr tokenSecret \<Rightarrow>
          if data_at (secret_Data tokenSecret) SplunkFluentdSecretTokenKey = []
          then Inl (Other (''expected secret '' @ quoted SplunkFluentdTokenSecretName @
                           '' to have a field named '' @ quoted SplunkFluentdSecretTokenKey))
          else Inr (Some \<lparr>Token = data_at (secret_Data tokenSecret) SplunkFluentdSecretTokenKey\<rparr>))"

definition getFluentdFilters ::
  "(string \<Rightarrow> string \<Rightarrow> error + ConfigMap) \<Rightarrow> error + FluentdFilters option" where
  "getFluentdFilters client =
     (case client FluentdFilterConfigMapName OperatorNamespace of
        Inl err \<Rightarrow>
          if IsNotFound err then Inr None
          else Inl (Other (''failed to read ConfigMap '' @ quoted FluentdFilterConfigMapName @ '': '' @ Error err))
      | Inr cm \<Rightarrow>
          Inr (Some \<lparr>Flow = data_at (cm_Data cm) FluentdFilterFlowName,
                     DNS = data_at (cm_Data cm) FluentdFilterDNSName\<rparr>))"

definition getSysLogCertificate ::
  "(string \<Rightarrow> string \<Rightarrow> error + ConfigMap) \<Rightarrow> error + Certificate option" where
  "getSysLogCertificate client =
     (case client SyslogCAConfigMapName OperatorNamespace of
        Inl err \<Rightarrow>
          if IsNotFound err then Inr None
          else Inl (Other (''failed to read ConfigMap '' @ quoted SyslogCAConfigMapName @ '': '' @ Error err))
      | Inr cm \<Rightarrow>
          if length (data_at (cm_Data cm) TLSCertKey) = 0 then Inr None
          else Inr (Some \<lparr>cert_Name = SyslogCAConfigMapName, cert_Namespace = OperatorNamespace,
                          cert_PEM = data_at (cm_Data cm) TLSCertKey\<rparr>))"

section \<open>ReconcileLogCollector.Reconcile\<close>

text \<open>
  The body of \<open>Reconcile\<close>, cut into consecutive stretches of the source. Each stretch
  keeps the source's order of checks, its messages and its return values.
\<close>

text \<open>Updating the status conditions from the TigeraStatus (the request for it only).\<close>

definition lc_status_conditions ::
  "lc_cluster \<Rightarrow> Request \<Rightarrow> LogCollector \<Rightarrow> (lc_call, LogCollector) step" where
  "lc_status_conditions cli request instance =
     (if req_Name request = ResourceName \<and> req_Namespace request = []
      then case lc_Get_TigeraStatus cli of
             Inl err \<Rightarrow> Inl (Result_empty, Some err, [])
           | Inr ts_conditions \<Rightarrow>
               let instance' = instance\<lparr>Status := (Status instance)
                     \<lparr>Conditions := lc_UpdateStatusCondition cli (Conditions (Status instance)) ts_conditions\<rparr>\<rparr>
               in (case lc_Status_Update_conditions cli of
                     Some err \<Rightarrow> Inl (Result_empty, Some err, [StatusUpdate instance'])
                   | None \<Rightarrow> Inr (instance', [StatusUpdate instance']))
      else Inr (instance, []))"

text \<open>Defaulting the instance and patching it when a field was set.\<close>

definition lc_defaults :: "lc_cluster \<Rightarrow> LogCollector \<Rightarrow> (lc_call, LogCollector) step" where
  "lc_defaults cli instance0 =
     (let (instance, modifiedFields) = fillDefaults instance0
      in if length modifiedFields > 0
         then case lc_Patch cli of
                Some err \<Rightarrow>
                  Inl (Result_empty, Some err,
                       [Patch instance,
                        StatusManager (SetDegraded ResourcePatchError
                          (''Failed to set defaults for LogCollector fields: ['' @
                             Join modifiedFields '', '' @ '']'') (Some err))])
              | None \<Rightarrow> Inr (instance, [Patch instance])
         else Inr (instance, []))"

text \<open>API server, tier watch, tier, license API and license.\<close>

definition lc_prerequisites :: "ReconcileLogCollector \<Rightarrow> lc_cluster \<Rightarrow> (lc_call, License) step" where
  "lc_prerequisites r cli =
     (if \<not> lc_IsAPIServerReady cli
      then degraded_return ResourceNotReady ''Waiting for Tigera API server to be ready'' None Result_empty None
      else if \<not> tierWatchReady r
      then degraded_return ResourceNotReady ''Waiting for Tier watch to be established'' None
             \<lparr>RequeueAfter = StandardRetry\<rparr> None
      else case lc_Get_Tier cli of
        Some err \<Rightarrow>
          if IsNotFound err
          then degraded_return ResourceNotReady
                 ''Waiting for allow-tigera tier to be created, see the 'tiers' TigeraStatus for more information''
                 (Some err) \<lparr>RequeueAfter = StandardRetry\<rparr> None
          else degraded_return ResourceNotReady ''Error querying allow-tigera tier'' (Some err)
                 Result_empty (Some err)
      | None \<Rightarrow>
          if \<not> licenseAPIReady r
          then degraded_return ResourceNotReady ''Waiting for LicenseKeyAPI to be ready'' None
                 \<lparr>RequeueAfter = StandardRetry\<rparr> None
          else case lc_FetchLicenseKey cli of
            Inl err \<Rightarrow>
              if IsNotFound err
              then degraded_return ResourceNotFound ''License not found'' (Some err)
                     \<lparr>RequeueAfter = StandardRetry\<rparr> None
              else degraded_return ResourceReadError ''Error querying license'' (Some err)
                     \<lparr>RequeueAfter = StandardRetry\<rparr> None
          | Inr license \<Rightarrow> Inr (license, []))"

text \<open>Installation, pull secrets, management cluster connection, management cluster, CA.\<close>

record lc_installation =
  li_variant :: ProductVariant
  li_installation :: InstallationSpec
  li_pullSecrets :: "Secret list"
  li_managedCluster :: bool
  li_managementCluster :: "ManagementCluster option"

definition lc_read_installation :: "lc_cluster \<Rightarrow> (lc_call, lc_installation) step" where
  "lc_read_installation cli =
     (case lc_GetInstallation cli of
        Inl err \<Rightarrow>
          if IsNotFound err
          then degraded_return ResourceNotFound ''Installation not found'' (Some err) Result_empty (Some err)
          else degraded_return ResourceReadError ''Error querying installation'' (Some err) Result_empty (Some err)
      | Inr (variant, installation) \<Rightarrow>
      case lc_GetNetworkingPullSecrets cli of
        Inl err \<Rightarrow>
          degraded_return ResourceReadError ''Error retrieving pull secrets'' (Some err) Result_empty (Some err)
      | Inr pullSecrets \<Rightarrow>
      let (managementClusterConnection, mcc_err) = lc_GetManagementClusterConnection cli
      in if (case mcc_err of None \<Rightarrow> False | Some err \<Rightarrow> \<not> IsNotFound err)
         then degraded_return ResourceNotFound
                ''An error occurred while looking for a ManagementClusterConnection'' mcc_err
                Result_empty mcc_err
         else
      let managedCluster = (managementClusterConnection \<noteq> None)
      in case lc_GetManagementCluster cli of
        Inl err \<Rightarrow>
          degraded_return ResourceReadError ''Error reading ManagementCluster'' (Some err) Result_empty (Some err)
      | Inr managementCluster \<Rightarrow>
      case lc_CertificateManager_Create cli of
        Some err \<Rightarrow>
          degraded_return ResourceCreateError ''Unable to create the Tigera CA'' (Some err) Result_empty (Some err)
      | None \<Rightarrow>
          Inr (\<lparr>li_variant = variant, li_installation = installation, li_pullSecrets = pullSecrets,
                li_managedCluster = managedCluster, li_managementCluster = managementCluster\<rparr>, []))"

text \<open>
  The fluentd key pair, the Prometheus certificate, the multi-tenant checks, the
  Linseed certificate and the trusted bundle.
\<close>

record lc_certificates =
  lcert_fluentdKeyPair :: KeyPair
  lcert_trustedBundle :: TrustedBundle
  lcert_tenant :: "Tenant option"

definition lc_linseed_location ::
  "ReconcileLogCollector \<Rightarrow> lc_cluster \<Rightarrow> LogCollector \<Rightarrow> lc_installation \<Rightarrow>
   (lc_call, string \<times> string \<times> Tenant option) step" where
  "lc_linseed_location r cli instance inst =
     (let multiTenantManagement = (multiTenant r \<and> li_managementCluster inst \<noteq> None);
          ns = MultiTenantManagementClusterNamespace (Spec instance)
      in if ns \<noteq> [] \<and> \<not> multiTenantManagement
         then degraded_return ResourceValidationError
                ''multiTenantManagementClusterNamespace can only be set on multi-tenant management clusters''
                None Result_empty None
         else if li_managedCluster inst
         then Inr ((VoltronLinseedPublicCert, OperatorNamespace, None), [])
         else if multiTenantManagement
         then (if ns = []
               then degraded_return ResourceValidationError
                      ''multiTenantManagementClusterNamespace is not set'' None Result_empty None
               else case lc_GetTenant cli ns of
                      Inl err \<Rightarrow>
                        degraded_return ResourceNotReady (''Failed to retrieve tenant in ns '' @ ns)
                          (Some err) Result_empty (Some err)
                    | Inr tenant \<Rightarrow> Inr ((TigeraLinseedSecret, ns, tenant), []))
         else Inr ((TigeraLinseedSecret, OperatorNamespace, None), []))"

definition lc_read_certificates ::
  "ReconcileLogCollector \<Rightarrow> lc_cluster \<Rightarrow> LogCollector \<Rightarrow> lc_installation \<Rightarrow>
   (lc_call, lc_certificates) step" where
  "lc_read_certificates r cli instance inst =
     (case lc_GetOrCreateKeyPair cli FluentdPrometheusTLSSecretName of
        Inl err \<Rightarrow>
          degraded_return ResourceCreateError ''Error creating TLS certificate'' (Some err) Result_empty (Some err)
      | Inr fluentdKeyPair \<Rightarrow>
      case lc_GetCertificate cli PrometheusClientTLSSecretName OperatorNamespace of
        Inl err \<Rightarrow>
          degraded_return ResourceReadError ''Failed to get certificate'' (Some err) Result_empty (Some err)
      | Inr None \<Rightarrow>
          degraded_return ResourceNotReady
            ''Prometheus secrets are not available yet, waiting until they become available'' None
            \<lparr>RequeueAfter = StandardRetry\<rparr> None
      | Inr (Some prometheusCertificate) \<Rightarrow>
      andThen (lc_linseed_location r cli instance inst)
        (\<lambda>(linseedCertName, linseedCertNamespace, tenant).
      case lc_GetCertificate cli linseedCertName linseedCertNamespace of
        Inl err \<Rightarrow>
          degraded_return ResourceValidationError
            (''Failed to retrieve / validate  '' @ linseedCertNamespace @ ''/'' @ linseedCertName)
            (Some err) Result_empty (Some err)
      | Inr None \<Rightarrow>
          degraded_return ResourceNotReady
            (''Linseed certificate ('' @ linseedCertNamespace @ ''/'' @ linseedCertName @ '') is not yet available'')
            None Result_empty None
      | Inr (Some linseedCertificate) \<Rightarrow>
      case lc_CreateTrustedBundle cli [prometheusCertificate, linseedCertificate] of
        Inl err \<Rightarrow>
          degraded_return ResourceCreateError ''Unable to create tigera-ca-bundle configmap'' (Some err)
            Result_empty (Some err)
      | Inr trustedBundle \<Rightarrow>
          Inr (\<lparr>lcert_fluentdKeyPair = fluentdKeyPair, lcert_trustedBundle = trustedBundle,
                lcert_tenant = tenant\<rparr>,
               [StatusManager (AddToStatusManager LogCollectorNamespace)])))"

text \<open>
  The export-logs licence check, the S3 and Splunk credentials, the syslog certificate
  and the check of the syslog log types on a managed cluster. The function-level \<open>err\<close>
  is nil all through this stretch (it was last assigned by the trusted bundle's creation,
  or by a credential read that succeeded), so the two \<open>return reconcile.Result{}, err\<close>
  that follow a validation message return a nil error.
\<close>

record lc_stores =
  ls_s3Credential :: "S3Credential option"
  ls_splunkCredential :: "SplunkCredential option"
  ls_useSyslogCertificate :: bool
  ls_trustedBundle :: TrustedBundle

text \<open>The loop over \<open>syslog.LogTypes\<close>: true when it meets \<open>IDSEvents\<close>.\<close>

fun hasIDSEvents :: "SyslogLogType list \<Rightarrow> bool" where
  "hasIDSEvents [] = False"
| "hasIDSEvents (l # ls) = (if l = SyslogLogIDSEvents then True else hasIDSEvents ls)"

definition lc_s3 :: "lc_cluster \<Rightarrow> LogCollector \<Rightarrow> (lc_call, S3Credential option) step" where
  "lc_s3 cli instance =
     (case AdditionalStores (Spec instance) of
        None \<Rightarrow> Inr (None, [])
      | Some stores \<Rightarrow>
          (case S3 stores of
             None \<Rightarrow> Inr (None, [])
           | Some s3 \<Rightarrow>
               (case getS3Credential (lc_Get_Secret cli) of
                  Inl err \<Rightarrow>
                    degraded_return ResourceValidationError ''Error with S3 credential secret'' (Some err)
                      Result_empty (Some err)
                | Inr None \<Rightarrow>
                    degraded_return ResourceNotFound ''S3 credential secret does not exist'' None
                      Result_empty None
                | Inr (Some s3Credential) \<Rightarrow> Inr (Some s3Credential, []))))"

definition lc_splunk :: "lc_cluster \<Rightarrow> LogCollector \<Rightarrow> (lc_call, SplunkCredential option) step" where
  "lc_splunk cli instance =
     (case AdditionalStores (Spec instance) of
        None \<Rightarrow> Inr (None, [])
      | Some stores \<Rightarrow>
          (case Splunk stores of
             None \<Rightarrow> Inr (None, [])
           | Some splunk \<Rightarrow>
               (case getSplunkCredential (lc_Get_Secret cli) of
                  Inl err \<Rightarrow>
                    degraded_return ResourceValidationError ''Error with Splunk credential secret'' (Some err)
                      Result_empty (Some err)
                | Inr None \<Rightarrow>
                    degraded_return ResourceNotFound ''Splunk credential secret does not exist'' None
                      Result_empty None
                | Inr (Some splunkCredential) \<Rightarrow> Inr (Some splunkCredential, []))))"

definition lc_syslog_certificate ::
  "lc_cluster \<Rightarrow> LogCollector \<Rightarrow> TrustedBundle \<Rightarrow> (lc_call, bool \<times> TrustedBundle) step" where
  "lc_syslog_certificate cli instance trustedBundle =
     (case AdditionalStores (Spec instance) of
        None \<Rightarrow> Inr ((False, trustedBundle), [])
      | Some stores \<Rightarrow>
          (case Syslog stores of
             None \<Rightarrow> Inr ((False, trustedBundle), [])
           | Some syslog \<Rightarrow>
               if Encryption syslog = EncryptionTLS
               then (case getSysLogCertificate (lc_Get_ConfigMap cli) of
                       Inl err \<Rightarrow>
                         degraded_return ResourceReadError ''Error loading Syslog certificate'' (Some err)
                           Result_empty (Some err)
                     | Inr None \<Rightarrow> Inr ((False, trustedBundle), [])
                     | Inr (Some syslogCert) \<Rightarrow> Inr ((True, AddCertificates trustedBundle syslogCert), []))
               else Inr ((False, trustedBundle), [])))"

definition lc_syslog_logtypes :: "LogCollector \<Rightarrow> bool \<Rightarrow> (lc_call, unit) step" where
  "lc_syslog_logtypes instance managedCluster =
     (let err = (None :: error option)
      in case AdditionalStores (Spec instance) of
           None \<Rightarrow> Inr ((), [])
         | Some stores \<Rightarrow>
             (case Syslog stores of
                None \<Rightarrow> Inr ((), [])
              | Some syslog \<Rightarrow>
                  if LogTypes syslog \<noteq> [] \<and> err = None \<and> managedCluster \<and> hasIDSEvents (LogTypes syslog)
                  then degraded_return ResourceValidationError
                         ''IDSEvents option is not supported for Syslog config in a managed cluster'' None
                         Result_empty err
                  else Inr ((), [])))"

definition lc_read_stores ::
  "lc_cluster \<Rightarrow> LogCollector \<Rightarrow> License \<Rightarrow> bool \<Rightarrow> TrustedBundle \<Rightarrow> (lc_call, lc_stores) step" where
  "lc_read_stores cli instance license managedCluster trustedBundle =
     (let err = (None :: error option);
          exportLogs = lc_IsFeatureActive cli license ExportLogsFeature
      in if \<not> exportLogs \<and> AdditionalStores (Spec instance) \<noteq> None
         then degraded_return ResourceValidationError
                ''Feature is not active - License does not support feature: export-logs'' None
                Result_empty err
         else
           andThen (lc_s3 cli instance) (\<lambda>s3Credential.
           andThen (lc_splunk cli instance) (\<lambda>splunkCredential.
           andThen (lc_syslog_certificate cli instance trustedBundle) (\<lambda>(useSyslogCertificate, trustedBundle').
           andThen (lc_syslog_logtypes instance managedCluster) (\<lambda>_.
             Inr (\<lparr>ls_s3Credential = s3Credential, ls_splunkCredential = splunkCredential,
                   ls_useSyslogCertificate = useSyslogCertificate, ls_trustedBundle = trustedBundle'\<rparr>,
                  []))))))"

text \<open>
  The fluentd filters, the EKS Cloudwatch configuration with its key pair, the
  PacketCapture API and the NonClusterHost resource.
\<close>

record lc_sources =
  lsrc_filters :: "FluentdFilters option"
  lsrc_eksConfig :: "EksCloudwatchLogConfig option"
  lsrc_esClusterConfig :: "ClusterConfig option"
  lsrc_eksLogForwarderKeyPair :: "KeyPair option"
  lsrc_packetcaptureapi :: "PacketCaptureAPI option"
  lsrc_nonclusterhost :: "NonClusterHost option"

definition eksSourceOf :: "InstallationSpec \<Rightarrow> LogCollector \<Rightarrow> EksCloudwatchLogsSpec option" where
  "eksSourceOf installation instance =
     (if KubernetesProvider_IsEKS installation
      then (case AdditionalSources (Spec instance) of
              None \<Rightarrow> None
            | Some sources \<Rightarrow> EksCloudwatchLog sources)
      else None)"

definition lc_eks ::
  "lc_cluster \<Rightarrow> LogCollector \<Rightarrow> InstallationSpec \<Rightarrow>
   (lc_call, EksCloudwatchLogConfig option \<times> ClusterConfig option \<times> KeyPair option) step" where
  "lc_eks cli instance installation =
     (case eksSourceOf installation instance of
        None \<Rightarrow> Inr ((None, None, None), [])
      | Some eks \<Rightarrow>
          (case lc_GetElasticsearchClusterConfig cli of
             Inl err \<Rightarrow>
               if IsNotFound err
               then degraded_return ResourceNotReady
                      ''Elasticsearch cluster configuration is not available, waiting for it to become available''
                      (Some err) Result_empty None
               else degraded_return ResourceReadError
                      ''Failed to get the elasticsearch cluster configuration'' (Some err)
                      Result_empty (Some err)
           | Inr esClusterConfig \<Rightarrow>
          (case getEksCloudwatchLogConfig (lc_Get_Secret cli) (FetchInterval eks) (Region eks)
                  (GroupName eks) (StreamPrefix eks) of
             Inl err \<Rightarrow>
               degraded_return ResourceReadError ''Error retrieving EKS Cloudwatch Logs configuration''
                 (Some err) Result_empty (Some err)
           | Inr eksConfig \<Rightarrow>
          (case lc_GetOrCreateKeyPair cli EKSLogForwarderTLSSecretName of
             Inl err \<Rightarrow>
               degraded_return ResourceCreateError ''Error creating eks log forwarder TLS certificate''
                 (Some err) Result_empty (Some err)
           | Inr eksLogForwarderKeyPair \<Rightarrow>
               Inr ((eksConfig, Some esClusterConfig, Some eksLogForwarderKeyPair), [])))))"

definition lc_read_sources ::
  "lc_cluster \<Rightarrow> LogCollector \<Rightarrow> InstallationSpec \<Rightarrow> (lc_call, lc_sources) step" where
  "lc_read_sources cli instance installation =
     (case getFluentdFilters (lc_Get_ConfigMap cli) of
        Inl err \<Rightarrow>
          degraded_return ResourceReadError ''Error retrieving Fluentd filters'' (Some err)
            Result_empty (Some err)
      | Inr filters \<Rightarrow>
      andThen (lc_eks cli instance installation) (\<lambda>(eksConfig, esClusterConfig, eksLogForwarderKeyPair).
      let (packetcaptureapi, pc_err) = lc_GetPacketCaptureAPI cli
      in if (case pc_err of None \<Rightarrow> False | Some err \<Rightarrow> \<not> IsNotFound err)
         then degraded_return ResourceReadError ''Error querying PacketCapture CR'' pc_err
                Result_empty pc_err
         else
      case lc_GetNonClusterHost cli of
        Inl err \<Rightarrow>
          degraded_return ResourceReadError ''Failed to query NonClusterHost resource'' (Some err)
            Result_empty (Some err)
      | Inr nonclusterhost \<Rightarrow>
      case (case nonclusterhost of
              None \<Rightarrow> None
            | Some nch \<Rightarrow> lc_ParseEndpoint cli (nch_Endpoint nch)) of
        Some err \<Rightarrow>
          degraded_return ResourceReadError ''Failed to read parse endpoint from NonClusterHost resource''
            (Some err) Result_empty (Some err)
      | None \<Rightarrow>
          Inr (\<lparr>lsrc_filters = filters, lsrc_eksConfig = eksConfig, lsrc_esClusterConfig = esClusterConfig,
                lsrc_eksLogForwarderKeyPair = eksLogForwarderKeyPair,
                lsrc_packetcaptureapi = packetcaptureapi, lsrc_nonclusterhost = nonclusterhost\<rparr>, [])))"

text \<open>Rendering: the two fluentd configurations, the certificate component, the set-up.\<close>

definition linuxFluentdCfg ::
  "ReconcileLogCollector \<Rightarrow> LogCollector \<Rightarrow> lc_installation \<Rightarrow> lc_certificates \<Rightarrow>
   lc_stores \<Rightarrow> lc_sources \<Rightarrow> FluentdConfiguration" where
  "linuxFluentdCfg r instance inst certs stores sources =
     \<lparr>fc_LogCollector = instance,
      fc_ESClusterConfig = lsrc_esClusterConfig sources,
      fc_S3Credential = ls_s3Credential stores,
      fc_SplkCredential = ls_splunkCredential stores,
      fc_Filters = lsrc_filters sources,
      fc_EKSConfig = lsrc_eksConfig sources,
      fc_PullSecrets = li_pullSecrets inst,
      fc_Installation = li_installation inst,
      fc_ClusterDomain = clusterDomain r,
      fc_OSType = OSTypeLinux,
      fc_FluentdKeyPair = Some (lcert_fluentdKeyPair certs),
      fc_TrustedBundle = ls_trustedBundle stores,
      fc_ManagedCluster = li_managedCluster inst,
      fc_UseSyslogCertificate = ls_useSyslogCertificate stores,
      fc_Tenant = lcert_tenant certs,
      fc_ExternalElastic = externalElastic r,
      fc_EKSLogForwarderKeyPair = lsrc_eksLogForwarderKeyPair sources,
      fc_PacketCapture = lsrc_packetcaptureapi sources,
      fc_NonClusterHost = lsrc_nonclusterhost sources\<rparr>"

definition windowsFluentdCfg ::
  "ReconcileLogCollector \<Rightarrow> LogCollector \<Rightarrow> lc_installation \<Rightarrow> lc_certificates \<Rightarrow>
   lc_stores \<Rightarrow> lc_sources \<Rightarrow> FluentdConfiguration" where
  "windowsFluentdCfg r instance inst certs stores sources =
     \<lparr>fc_LogCollector = instance,
      fc_ESClusterConfig = lsrc_esClusterConfig sources,
      fc_S3Credential = ls_s3Credential stores,
      fc_SplkCredential = ls_splunkCredential stores,
      fc_Filters = lsrc_filters sources,
      fc_EKSConfig = lsrc_eksConfig sources,
      fc_PullSecrets = li_pullSecrets inst,
      fc_Installation = li_installation inst,
      fc_ClusterDomain = clusterDomain r,
      fc_OSType = OSTypeWindows,
      fc_FluentdKeyPair = Some (lcert_fluentdKeyPair certs),
      fc_TrustedBundle = ls_trustedBundle stores,
      fc_ManagedCluster = li_managedCluster inst,
      fc_UseSyslogCertificate = ls_useSyslogCertificate stores,
      fc_Tenant = None,
      fc_ExternalElastic = False,
      fc_EKSLogForwarderKeyPair = lsrc_eksLogForwarderKeyPair sources,
      fc_PacketCapture = None,
      fc_NonClusterHost = None\<rparr>"

definition certificateComponent ::
  "LogCollector \<Rightarrow> lc_installation \<Rightarrow> lc_certificates \<Rightarrow> lc_stores \<Rightarrow> lc_sources \<Rightarrow>
   CertificateManagementConfig" where
  "certificateComponent instance inst certs stores sources =
     (let eks = (eksSourceOf (li_installation inst) instance \<noteq> None)
      in \<lparr>cmc_Namespace = LogCollectorNamespace,
          cmc_ServiceAccounts = [FluentdNodeName] @ (if eks then [EKSLogForwarderName] else []),
          cmc_KeyPairOptions =
            [(Some (lcert_fluentdKeyPair certs), True, True)] @
            (if eks then [(lsrc_eksLogForwarderKeyPair sources, True, True)] else []),
          cmc_TrustedBundle = Some (ls_trustedBundle stores)\<rparr>)"

definition setUp :: "ReconcileLogCollector \<Rightarrow> lc_installation \<Rightarrow> lc_component" where
  "setUp r inst =
     NewSetup \<lparr>su_OpenShift = provider_IsOpenShift r,
               su_Installation = li_installation inst,
               su_PullSecrets = li_pullSecrets inst,
               su_Namespace = LogCollectorNamespace,
               su_PSS = PSSPrivileged,
               su_CreateNamespace = True\<rparr>"

text \<open>The loop \<open>for _, component := range components\<close>: it stops at the first failing apply.\<close>

fun apply_components :: "lc_cluster \<Rightarrow> lc_component list \<Rightarrow> (lc_call, unit) step" where
  "apply_components cli [] = Inr ((), [])"
| "apply_components cli (component # comps) =
     (case lc_CreateOrUpdateOrDelete cli component of
        Some err \<Rightarrow>
          Inl (Result_empty, Some err,
               [CreateOrUpdateOrDelete component,
                StatusManager (SetDegraded ResourceUpdateError ''Error creating / updating resource'' (Some err))])
      | None \<Rightarrow>
          andThen (Inr ((), [CreateOrUpdateOrDelete component])) (\<lambda>_. apply_components cli comps))"

definition lc_apply_linux ::
  "ReconcileLogCollector \<Rightarrow> lc_cluster \<Rightarrow> LogCollector \<Rightarrow> lc_installation \<Rightarrow> lc_certificates \<Rightarrow>
   lc_stores \<Rightarrow> lc_sources \<Rightarrow> (lc_call, unit) step" where
  "lc_apply_linux r cli instance inst certs stores sources =
     (let component = Fluentd (linuxFluentdCfg r instance inst certs stores sources);
          components = [setUp r inst, component,
                        CertificateManagement (certificateComponent instance inst certs stores sources)]
      in case lc_ApplyImageSet cli component of
           Some err \<Rightarrow>
             Inl (Result_empty, Some err,
                  [ApplyImageSet component,
                   StatusManager (SetDegraded ResourceUpdateError ''Error with images from ImageSet'' (Some err))])
         | None \<Rightarrow>
             andThen (Inr ((), [ApplyImageSet component])) (\<lambda>_. apply_components cli components))"

text \<open>The fluentd component for Windows, when the cluster has Windows nodes.\<close>

definition lc_apply_windows ::
  "ReconcileLogCollector \<Rightarrow> lc_cluster \<Rightarrow> LogCollector \<Rightarrow> lc_installation \<Rightarrow> lc_certificates \<Rightarrow>
   lc_stores \<Rightarrow> lc_sources \<Rightarrow> (lc_call, unit) step" where
  "lc_apply_windows r cli instance inst certs stores sources =
     (case lc_HasWindowsNodes cli of
        Inl err \<Rightarrow> Inl (Result_empty, Some err, [])
      | Inr hasWindowsNodes \<Rightarrow>
          if hasWindowsNodes
          then let component = Fluentd (windowsFluentdCfg r instance inst certs stores sources)
               in (case lc_ApplyImageSet cli component of
                     Some err \<Rightarrow>
                       Inl (Result_empty, Some err,
                            [ApplyImageSet component,
                             StatusManager (SetDegraded ResourceUpdateError
                               ''Error with images from ImageSet'' (Some err))])
                   | None \<Rightarrow>
                       (case lc_CreateOrUpdateOrDelete cli component of
                          Some err \<Rightarrow>
                            Inl (Result_empty, Some err,
                                 [ApplyImageSet component, CreateOrUpdateOrDelete component,
                                  StatusManager (SetDegraded ResourceUpdateError
                                    ''Error creating / updating resource'' (Some err))])
                        | None \<Rightarrow> Inr ((), [ApplyImageSet component, CreateOrUpdateOrDelete component])))
          else Inr ((), []))"

text \<open>Clearing the degraded bit, the availability check and the final status update.\<close>

definition lc_finish :: "lc_cluster \<Rightarrow> LogCollector \<Rightarrow> Result \<times> error option \<times> lc_call list" where
  "lc_finish cli instance =
     (if \<not> lc_IsAvailable cli
      then (\<lparr>RequeueAfter = StandardRetry\<rparr>, None, [StatusManager ClearDegraded])
      else let instance' = instance\<lparr>Status := (Status instance)\<lparr>State := TigeraStatusReady\<rparr>\<rparr>
           in (case lc_Status_Update_state cli of
                 Some err \<Rightarrow> (Result_empty, Some err, [StatusManager ClearDegraded, StatusUpdate instance'])
               | None \<Rightarrow> (Result_empty, None, [StatusManager ClearDegraded, StatusUpdate instance'])))"

text \<open>
  The body from the status conditions to the last read: it falls through with the
  instance and everything rendering needs.
\<close>

type_synonym lc_read = "LogCollector \<times> lc_installation \<times> lc_certificates \<times> lc_stores \<times> lc_sources"

definition lc_read_state ::
  "ReconcileLogCollector \<Rightarrow> lc_cluster \<Rightarrow> Request \<Rightarrow> LogCollector \<Rightarrow> (lc_call, lc_read) step" where
  "lc_read_state r cli request instance0 =
     andThen (lc_status_conditions cli request instance0) (\<lambda>instance1.
     andThen (lc_defaults cli instance1) (\<lambda>instance.
     andThen (lc_prerequisites r cli) (\<lambda>license.
     andThen (lc_read_installation cli) (\<lambda>inst.
     andThen (lc_read_certificates r cli instance inst) (\<lambda>certs.
     andThen (lc_read_stores cli instance license (li_managedCluster inst) (lcert_trustedBundle certs)) (\<lambda>stores.
     andThen (lc_read_sources cli instance (li_installation inst)) (\<lambda>sources.
       Inr ((instance, inst, certs, stores, sources), []))))))))"

text \<open>
  The body up to the last apply: it falls through with the instance once every
  component has been applied.
\<close>

definition lc_converge ::
  "ReconcileLogCollector \<Rightarrow> lc_cluster \<Rightarrow> Request \<Rightarrow> LogCollector \<Rightarrow> (lc_call, LogCollector) step" where
  "lc_converge r cli request instance0 =
     andThen (lc_read_state r cli request instance0) (\<lambda>(instance, inst, certs, stores, sources).
     andThen (lc_apply_linux r cli instance inst certs stores sources) (\<lambda>_.
     andThen (lc_apply_windows r cli instance inst certs stores sources) (\<lambda>_.
       Inr (instance, []))))"

text \<open>
  \<open>Reconcile\<close>: the result, the error and the trace of calls. The deferred
  \<open>SetMetaData\<close> runs at every return that follows \<open>OnCRFound\<close>.
\<close>

definition Reconcile ::
  "ReconcileLogCollector \<Rightarrow> lc_cluster \<Rightarrow> Request \<Rightarrow> Result \<times> error option \<times> lc_call list" where
  "Reconcile r cli request =
     (case GetLogCollector cli of
        Inl err \<Rightarrow>
          if IsNotFound err
          then (Result_empty, None, [StatusManager OnCRNotFound])
          else (Result_empty, Some err,
                [StatusManager (SetDegraded ResourceReadError ''Error querying for LogCollector'' (Some err))])
      | Inr instance0 \<Rightarrow>
          (case lc_converge r cli request instance0 of
             Inl (res, err, calls) \<Rightarrow>
               (res, err, [StatusManager OnCRFound] @ calls @ [StatusManager SetMetaData])
           | Inr (instance, calls) \<Rightarrow>
               (case lc_finish cli instance of
                  (res, err, calls') \<Rightarrow>
                    (res, err, [StatusManager OnCRFound] @ calls @ calls' @ [StatusManager SetMetaData]))))"

text \<open>Reading a trace.\<close>

fun status_calls :: "lc_call list \<Rightarrow> status_call list" where
  "status_calls [] = []"
| "status_calls (StatusManager c # cs) = c # status_calls cs"
| "status_calls (c # cs) = status_calls cs"

fun applied :: "lc_call list \<Rightarrow> lc_component list" where
  "applied [] = []"
| "applied (CreateOrUpdateOrDelete component # cs) = component # applied cs"
| "applied (c # cs) = applied cs"

fun status_updates :: "lc_call list \<Rightarrow> LogCollector list" where
  "status_updates [] = []"
| "status_updates (StatusUpdate i # cs) = i # status_updates cs"
| "status_updates (c # cs) = status_updates cs"

fun image_sets :: "lc_call list \<Rightarrow> lc_component list" where
  "image_sets [] = []"
| "image_sets (ApplyImageSet component # cs) = component # image_sets cs"
| "image_sets (c # cs) = image_sets cs"

text \<open>The operating systems of the fluentd components in a list of components.\<close>

fun fluentd_OSTypes :: "lc_component list \<Rightarrow> OSType list" where
  "fluentd_OSTypes [] = []"
| "fluentd_OSTypes (Fluentd cfg # cs) = fc_OSType cfg # fluentd_OSTypes cs"
| "fluentd_OSTypes (c # cs) = fluentd_OSTypes cs"

section \<open>Objects the APIServer controller handles\<close>

text \<open>
  Modelled from the spec: names declared in packages \<open>operatorv1\<close>, \<open>render\<close> and
  \<open>networkpolicy\<close>, outside the files at hand.
\<close>

definition TigeraSecureEnterprise :: ProductVariant where
  "TigeraSecureEnterprise = ''TigeraSecureEnterprise''"
definition Calico :: ProductVariant where "Calico = ''Calico''"
definition APIServerNamespace :: string where "APIServerNamespace = ''calico-system''"
definition APIServerServiceAccountName :: string where "APIServerServiceAccountName = ''calico-apiserver''"
definition APIServerFinalizer :: string where
  "APIServerFinalizer = ''tigera.io/apiserver-cleanup''"
definition CalicoAPIServerTLSSecretName :: string where
  "CalicoAPIServerTLSSecretName = ''calico-apiserver-certs''"
definition DexTLSSecretName :: string where "DexTLSSecretName = ''tigera-dex-tls''"
definition APIServerResourceName :: string where "APIServerResourceName = ''apiserver''"

type_synonym ApplicationLayer = string
type_synonym KeyValidatorConfig = string

record Authentication =
  auth_Spec :: string
  auth_State :: string

record VersionInfo =
  Major :: nat
  Minor :: nat

record APIServerSpec =
  APIServerDeployment :: "string option"

record APIServerStatus =
  as_State :: string
  as_Conditions :: "Condition list"

record APIServer =
  as_Spec :: APIServerSpec
  as_Status :: APIServerStatus

record TigeraStatus =
  ts_Conditions :: "Condition list"
  ts_Available :: bool

record Deployment =
  AvailableReplicas :: "32 word"

record APIServerConfiguration =
  ac_K8SServiceEndpoint :: string
  ac_Installation :: InstallationSpec
  ac_APIServer :: APIServerSpec
  ac_ForceHostNetwork :: bool
  ac_ApplicationLayer :: "ApplicationLayer option"
  ac_ManagementCluster :: "ManagementCluster option"
  ac_ManagementClusterConnection :: "ManagementClusterConnection option"
  ac_TLSKeyPair :: "KeyPair option"
  ac_PullSecrets :: "Secret list"
  ac_OpenShift :: bool
  ac_TrustedBundle :: "TrustedBundle option"
  ac_MultiTenant :: bool
  ac_KeyValidatorConfig :: "KeyValidatorConfig option"
  ac_KubernetesVersion :: "VersionInfo option"
  ac_CanCleanupOlderResources :: bool
  ac_QueryServerTLSKeyPairCertificateManagementOnly :: "KeyPair option"

text \<open>
  The rendered components of the APIServer controller: \<open>render.APIServerPolicy\<close>,
  \<open>render.APIServer\<close> and \<open>rcertificatemanagement.CertificateManagement\<close>.
\<close>

datatype as_component =
    APIServerPolicy APIServerConfiguration
  | APIServerComponent APIServerConfiguration
  | APIServerCertificateManagement CertificateManagementConfig

section \<open>What one reconcile of the APIServer controller sees\<close>

record ReconcileAPIServer =
  ras_provider_IsOpenShift :: bool
  ras_enterpriseCRDsExist :: bool
  ras_clusterDomain :: string
  ras_tierWatchReady :: bool
  ras_multiTenant :: bool
  ras_kubernetesVersion :: "VersionInfo option"

text \<open>
  The answers of the cluster and of the packages outside the files at hand.
  \<open>utils.GetAPIServer\<close> returns the instance, or an error with a message. The
  Installation's finalizers are those the cluster holds when the reconcile starts;
  \<open>as_StillRunning\<close> says whether the pods of a Deployment (name, namespace) are still
  running, and \<open>as_Patch_Installation\<close> whether writing the Installation fails.
\<close>

record as_cluster =
  as_GetAPIServer :: "(error \<times> string) + APIServer"
  as_ValidateReplicatedPodResourceOverrides :: "string \<Rightarrow> error option"
  as_Get_TigeraStatus :: "error + TigeraStatus"
  as_UpdateStatusCondition :: "Condition list \<Rightarrow> Condition list \<Rightarrow> Condition list"
  as_Status_Update_conditions :: "error option"
  as_GetInstallation :: "error + ProductVariant \<times> InstallationSpec"
  as_CertificateManager_Create :: "error option"
  as_GetOrCreateKeyPair :: "string \<Rightarrow> error + KeyPair"
  as_GetNetworkingPullSecrets :: "error + Secret list"
  as_CreateNamedTrustedBundleFromSecrets :: "error + TrustedBundle"
  as_GetApplicationLayer :: "error + ApplicationLayer option"
  as_GetManagementCluster :: "error + ManagementCluster option"
  as_GetManagementClusterConnection :: "error + ManagementClusterConnection option"
  as_GetSecret :: "string \<Rightarrow> string \<Rightarrow> error + Secret option"
  as_Get_Tier :: "error option"
  as_GetCertificate :: "string \<Rightarrow> string \<Rightarrow> error + Certificate option"
  as_GetAuthentication :: "Authentication option \<times> error option"
  as_DexEnabled :: "Authentication \<Rightarrow> bool"
  as_GetKeyValidatorConfig :: "Authentication \<Rightarrow> error + KeyValidatorConfig"
  as_PopulateK8sServiceEndPoint :: "error option"
  as_k8sapi_Endpoint :: string
  as_Installation_Finalizers :: "string list"
  as_StillRunning :: "string \<Rightarrow> string \<Rightarrow> bool"
  as_Patch_Installation :: "error option"
  as_Get_Deployment :: "string \<Rightarrow> string \<Rightarrow> error + Deployment"
  as_IsAPIServerReady :: bool
  as_Render_APIServer :: "APIServerConfiguration \<Rightarrow> error option"
  as_ApplyImageSet :: "as_component list \<Rightarrow> error option"
  as_CreateOrUpdateOrDelete :: "as_component \<Rightarrow> error option"
  as_IsAvailable :: bool
  as_Status_Update_state :: "error option"

text \<open>What a reconcile of the APIServer controller reads from the cluster.\<close>

datatype as_read =
    Read_APIServer
  | Read_TigeraStatus
  | Read_Installation
  | Read_CA
  | Read_KeyPair string
  | Read_PullSecrets
  | Read_TrustedBundle
  | Read_ApplicationLayer
  | Read_ManagementCluster
  | Read_ManagementClusterConnection
  | Read_Secret string string
  | Read_Tier
  | Read_Certificate string string
  | Read_Authentication
  | Read_KeyValidatorConfig
  | Read_K8sServiceEndpoint
  | Read_Deployment string string
  | Read_APIServerReady

text \<open>
  The trace of a reconcile of the APIServer controller: the reads, the calls on the
  status manager, the finalizers written to the Installation, the status updates, the
  components rendered and the components handed to \<open>ApplyImageSet\<close> and
  \<open>CreateOrUpdateOrDelete\<close>, in program order.
\<close>

datatype as_call =
    Get as_read
  | Manager status_call
  | WriteFinalizers "string list"
  | UpdateStatus APIServer
  | Render as_component
  | ResolveImages "as_component list"
  | Apply as_component

definition get :: "as_read \<Rightarrow> 'a \<Rightarrow> (as_call, 'a) step" where
  "get what answer = Inr (answer, [Get what])"

definition as_degraded_return ::
  "TigeraStatusReason \<Rightarrow> string \<Rightarrow> error option \<Rightarrow> Result \<Rightarrow> error option \<Rightarrow> (as_call, 'a) step" where
  "as_degraded_return reason msg err res ret = Inl (res, ret, [Manager (SetDegraded reason msg err)])"

definition as_ResourceName :: string where
  "as_ResourceName = ''apiserver''"

section \<open>The finalizer on the Installation\<close>

text \<open>
  Modelled from the spec: \<open>utils.MaintainInstallationFinalizer\<close> is not among the
  files at hand. Its model follows the comment on \<open>maintainFinalizer\<close>: the finalizer is
  added to the Installation when the resource it is given (the API server) exists, and it
  is removed only when that resource has been deleted and the pods of the secondary
  resource (the Deployment) have stopped running; otherwise the finalizers are left as
  they are. The write may fail, and then nothing is changed and the error is returned.
\<close>

definition MaintainInstallationFinalizer ::
  "as_cluster \<Rightarrow> APIServer option \<Rightarrow> string \<Rightarrow> string \<times> string \<Rightarrow> error option \<times> as_call list" where
  "MaintainInstallationFinalizer cli mainResource finalizer secondary =
     (let old = as_Installation_Finalizers cli;
          new = (if mainResource \<noteq> None
                 then (if finalizer \<in> set old then old else old @ [finalizer])
                 else if as_StillRunning cli (fst secondary) (snd secondary) then old
                 else removeAll finalizer old)
      in case as_Patch_Installation cli of
           Some err \<Rightarrow> (Some err, [])
         | None \<Rightarrow> (None, [WriteFinalizers new]))"

definition maintainFinalizer :: "as_cluster \<Rightarrow> APIServer option \<Rightarrow> error option \<times> as_call list" where
  "maintainFinalizer cli apiserver =
     MaintainInstallationFinalizer cli apiserver APIServerFinalizer (''calico-apiserver'', APIServerNamespace)"

text \<open>The finalizers of the Installation after a trace, from those it had before.\<close>

fun finalizers_after :: "string list \<Rightarrow> as_call list \<Rightarrow> string list" where
  "finalizers_after fs [] = fs"
| "finalizers_after fs (WriteFinalizers new # cs) = finalizers_after new cs"
| "finalizers_after fs (c # cs) = finalizers_after fs cs"

section \<open>ReconcileAPIServer.Reconcile\<close>

definition validateAPIServerResource :: "as_cluster \<Rightarrow> APIServer \<Rightarrow> error option" where
  "validateAPIServerResource cli instance =
     (case APIServerDeployment (as_Spec instance) of
        None \<Rightarrow> None
      | Some d \<Rightarrow>
          (case as_ValidateReplicatedPodResourceOverrides cli d of
             Some err \<Rightarrow> Some (Other (''APIServer spec.APIServerDeployment is not valid: '' @ Error err))
           | None \<Rightarrow> None))"

text \<open>Updating the status conditions from the TigeraStatus (the request for it only).\<close>

definition as_status_conditions ::
  "as_cluster \<Rightarrow> Request \<Rightarrow> APIServer \<Rightarrow> (as_call, APIServer) step" where
  "as_status_conditions cli request instance =
     (if req_Name request = as_ResourceName \<and> req_Namespace request = []
      then andThen (get Read_TigeraStatus (as_Get_TigeraStatus cli)) (\<lambda>answer.
           case answer of
             Inl err \<Rightarrow> Inl (Result_empty, Some err, [])
           | Inr ts \<Rightarrow>
               let instance' = instance\<lparr>as_Status := (as_Status instance)
                     \<lparr>as_Conditions := as_UpdateStatusCondition cli (as_Conditions (as_Status instance))
                                         (ts_Conditions ts)\<rparr>\<rparr>
               in (case as_Status_Update_conditions cli of
                     Some err \<Rightarrow> Inl (Result_empty, Some err, [UpdateStatus instance'])
                   | None \<Rightarrow> Inr (instance', [UpdateStatus instance'])))
      else Inr (instance, []))"

text \<open>The Installation, the CA, the TLS key pairs and the pull secrets.\<close>

record as_base =
  ab_installationSpec :: InstallationSpec
  ab_tlsSecret :: KeyPair
  ab_queryServerTLSSecret :: "KeyPair option"
  ab_pullSecrets :: "Secret list"

definition as_read_installation :: "as_cluster \<Rightarrow> (as_call, InstallationSpec) step" where
  "as_read_installation cli =
     andThen (get Read_Installation (as_GetInstallation cli)) (\<lambda>answer.
     case answer of
       Inl err \<Rightarrow>
         if IsNotFound err
         then as_degraded_return ResourceNotFound ''Installation not found'' (Some err) Result_empty (Some err)
         else as_degraded_return ResourceReadError ''Error querying installation'' (Some err) Result_empty (Some err)
     | Inr (variant, installationSpec) \<Rightarrow>
         if Variant installationSpec = []
         then as_degraded_return ResourceNotReady ''Waiting for Installation Variant to be set'' None
                Result_empty None
         else Inr (installationSpec, []))"

definition as_query_server_key_pair ::
  "as_cluster \<Rightarrow> InstallationSpec \<Rightarrow> (as_call, KeyPair option) step" where
  "as_query_server_key_pair cli installationSpec =
     (if inst_CertificateManagement installationSpec \<noteq> None
      then andThen (get (Read_KeyPair ''query-server-tls'') (as_GetOrCreateKeyPair cli ''query-server-tls''))
             (\<lambda>answer.
              case answer of
                Inl err \<Rightarrow>
                  as_degraded_return ResourceCreateError ''Unable to get or create tls key pair'' (Some err)
                    Result_empty (Some err)
              | Inr kp \<Rightarrow> Inr (Some kp, []))
      else Inr (None, []))"

definition as_read_base :: "as_cluster \<Rightarrow> (as_call, as_base) step" where
  "as_read_base cli =
     andThen (as_read_installation cli) (\<lambda>installationSpec.
     andThen (get Read_CA (as_CertificateManager_Create cli)) (\<lambda>answer.
     case answer of
       Some err \<Rightarrow>
         as_degraded_return ResourceCreateError ''Unable to create the Tigera CA'' (Some err)
           Result_empty (Some err)
     | None \<Rightarrow>
     andThen (get (Read_KeyPair CalicoAPIServerTLSSecretName)
                (as_GetOrCreateKeyPair cli CalicoAPIServerTLSSecretName)) (\<lambda>answer.
     case answer of
       Inl err \<Rightarrow>
         as_degraded_return ResourceCreateError ''Unable to get or create tls key pair'' (Some err)
           Result_empty (Some err)
     | Inr tlsSecret \<Rightarrow>
     andThen (as_query_server_key_pair cli installationSpec) (\<lambda>queryServerTLSSecret.
     andThen (Inr ((), [Manager (AddToStatusManager APIServerNamespace)])) (\<lambda>_.
     andThen (get Read_PullSecrets (as_GetNetworkingPullSecrets cli)) (\<lambda>answer.
     case answer of
       Inl err \<Rightarrow>
         as_degraded_return ResourceReadError ''Error retrieving pull secrets'' (Some err)
           Result_empty (Some err)
     | Inr pullSecrets \<Rightarrow>
         Inr (\<lparr>ab_installationSpec = installationSpec, ab_tlsSecret = tlsSecret,
               ab_queryServerTLSSecret = queryServerTLSSecret, ab_pullSecrets = pullSecrets\<rparr>, [])))))))"

text \<open>
  The enterprise-only data. The variables are declared nil (and
  \<open>includeV3NetworkPolicy\<close> false) before the block, which only runs for the
  \<open>TigeraSecureEnterprise\<close> variant.
\<close>

record as_enterprise =
  ae_tunnelCAKeyPair :: "KeyPair option"
  ae_trustedBundle :: "TrustedBundle option"
  ae_applicationLayer :: "ApplicationLayer option"
  ae_managementCluster :: "ManagementCluster option"
  ae_managementClusterConnection :: "ManagementClusterConnection option"
  ae_keyValidatorConfig :: "KeyValidatorConfig option"
  ae_includeV3NetworkPolicy :: bool

definition as_no_enterprise :: as_enterprise where
  "as_no_enterprise =
     \<lparr>ae_tunnelCAKeyPair = None, ae_trustedBundle = None, ae_applicationLayer = None,
      ae_managementCluster = None, ae_managementClusterConnection = None,
      ae_keyValidatorConfig = None, ae_includeV3NetworkPolicy = False\<rparr>"

text \<open>Trusted bundle, ApplicationLayer, ManagementCluster and ManagementClusterConnection.\<close>

definition as_read_management ::
  "as_cluster \<Rightarrow>
   (as_call, TrustedBundle \<times> ApplicationLayer option \<times> ManagementCluster option \<times>
             ManagementClusterConnection option) step" where
  "as_read_management cli =
     andThen (get Read_TrustedBundle (as_CreateNamedTrustedBundleFromSecrets cli)) (\<lambda>answer.
     case answer of
       Inl err \<Rightarrow>
         as_degraded_return ResourceCreateError ''Unable to create the trusted bundle'' (Some err)
           Result_empty (Some err)
     | Inr trustedBundle \<Rightarrow>
     andThen (get Read_ApplicationLayer (as_GetApplicationLayer cli)) (\<lambda>answer.
     case answer of
       Inl err \<Rightarrow>
         as_degraded_return ResourceReadError ''Error reading ApplicationLayer'' (Some err)
           Result_empty (Some err)
     | Inr applicationLayer \<Rightarrow>
     andThen (get Read_ManagementCluster (as_GetManagementCluster cli)) (\<lambda>answer.
     case answer of
       Inl err \<Rightarrow>
         as_degraded_return ResourceReadError ''Error reading ManagementCluster'' (Some err)
           Result_empty (Some err)
     | Inr managementCluster \<Rightarrow>
     andThen (get Read_ManagementClusterConnection (as_GetManagementClusterConnection cli)) (\<lambda>answer.
     case answer of
       Inl err \<Rightarrow>
         as_degraded_return ResourceReadError ''Error reading ManagementClusterConnection'' (Some err)
           Result_empty (Some err)
     | Inr managementClusterConnection \<Rightarrow>
         if managementClusterConnection \<noteq> None \<and> managementCluster \<noteq> None
         then let err = Other ''having both a ManagementCluster and a ManagementClusterConnection is not supported''
              in as_degraded_return ResourceValidationError [] (Some err) Result_empty (Some err)
         else Inr ((trustedBundle, applicationLayer, managementCluster, managementClusterConnection), [])))))"

text \<open>
  The tunnel CA key pair of a single-tenant management cluster; the key pair made of
  the tunnel secret is known by the secret's name.
\<close>

definition as_read_tunnel ::
  "ReconcileAPIServer \<Rightarrow> as_cluster \<Rightarrow> ManagementCluster option \<Rightarrow> (as_call, KeyPair option) step" where
  "as_read_tunnel r cli managementCluster =
     (case managementCluster of
        None \<Rightarrow> Inr (None, [])
      | Some mc \<Rightarrow>
          (case mc_TLS mc of
             None \<Rightarrow> Inr (None, [])
           | Some tls \<Rightarrow>
               if \<not> ras_multiTenant r
               then let tunnelSecretName = tls_SecretName tls
                    in andThen (get (Read_Secret tunnelSecretName OperatorNamespace)
                                  (as_GetSecret cli tunnelSecretName OperatorNamespace)) (\<lambda>answer.
                       case answer of
                         Inl err \<Rightarrow>
                           as_degraded_return ResourceReadError ''Unable to fetch the tunnel secret'' (Some err)
                             Result_empty (Some err)
                       | Inr None \<Rightarrow> Inr (None, [])
                       | Inr (Some tunnelCASecret) \<Rightarrow> Inr (Some tunnelSecretName, []))
               else Inr (None, [])))"

text \<open>Whether the allow-tigera tier can be queried.\<close>

definition as_read_tier :: "ReconcileAPIServer \<Rightarrow> as_cluster \<Rightarrow> (as_call, bool) step" where
  "as_read_tier r cli =
     (if ras_tierWatchReady r
      then andThen (get Read_Tier (as_Get_Tier cli)) (\<lambda>answer.
           case answer of
             Some err \<Rightarrow>
               if \<not> IsNotFound err \<and> \<not> IsNoMatchError err
               then as_degraded_return ResourceReadError ''Error querying allow-tigera tier'' (Some err)
                      Result_empty (Some err)
               else Inr (False, [])
           | None \<Rightarrow> Inr (True, []))
      else Inr (False, []))"

text \<open>The Prometheus certificate, the Authentication resource, Dex and the key validator.\<close>

definition as_read_dex ::
  "as_cluster \<Rightarrow> Authentication \<Rightarrow> TrustedBundle \<Rightarrow> (as_call, TrustedBundle) step" where
  "as_read_dex cli authenticationCR trustedBundle =
     (if as_DexEnabled cli authenticationCR
      then andThen (get (Read_Certificate DexTLSSecretName OperatorNamespace)
                      (as_GetCertificate cli DexTLSSecretName OperatorNamespace)) (\<lambda>answer.
           case answer of
             Inl err \<Rightarrow>
               as_degraded_return CertificateError (''Failed to retrieve '' @ DexTLSSecretName) (Some err)
                 Result_empty (Some err)
           | Inr None \<Rightarrow>
               as_degraded_return ResourceNotReady
                 (''Waiting for secret '' @ [CHR 0x27] @ DexTLSSecretName @ [CHR 0x27] @
                  '' to become available'') None
                 Result_empty None
           | Inr (Some certificate) \<Rightarrow> Inr (AddCertificates trustedBundle certificate, []))
      else Inr (trustedBundle, []))"

definition as_read_authentication ::
  "as_cluster \<Rightarrow> TrustedBundle \<Rightarrow> (as_call, TrustedBundle \<times> KeyValidatorConfig option) step" where
  "as_read_authentication cli trustedBundle0 =
     andThen (get (Read_Certificate PrometheusClientTLSSecretName OperatorNamespace)
                (as_GetCertificate cli PrometheusClientTLSSecretName OperatorNamespace)) (\<lambda>answer.
     case answer of
       Inl err \<Rightarrow>
         as_degraded_return ResourceReadError ''Failed to get certificate'' (Some err) Result_empty (Some err)
     | Inr prometheusCertificate \<Rightarrow>
     let trustedBundle = (case prometheusCertificate of
                            None \<Rightarrow> trustedBundle0
                          | Some c \<Rightarrow> AddCertificates trustedBundle0 c)
     in andThen (get Read_Authentication (as_GetAuthentication cli)) (\<lambda>(authenticationCR, auth_err).
     if (case auth_err of None \<Rightarrow> False | Some err \<Rightarrow> \<not> IsNotFound err)
     then as_degraded_return ResourceReadError ''Error while fetching Authentication'' auth_err
            Result_empty auth_err
     else case authenticationCR of
       None \<Rightarrow> Inr ((trustedBundle, None), [])
     | Some auth \<Rightarrow>
         if auth_State auth = TigeraStatusReady
         then andThen (as_read_dex cli auth trustedBundle) (\<lambda>trustedBundle'.
              andThen (get Read_KeyValidatorConfig (as_GetKeyValidatorConfig cli auth)) (\<lambda>answer.
              case answer of
                Inl err \<Rightarrow>
                  as_degraded_return ResourceReadError ''Failed to get KeyValidator Config'' (Some err)
                    Result_empty (Some err)
              | Inr keyValidatorConfig \<Rightarrow> Inr ((trustedBundle', Some keyValidatorConfig), [])))
         else Inr ((trustedBundle, None), [])))"

definition as_read_enterprise ::
  "ReconcileAPIServer \<Rightarrow> as_cluster \<Rightarrow> InstallationSpec \<Rightarrow> (as_call, as_enterprise) step" where
  "as_read_enterprise r cli installationSpec =
     (if Variant installationSpec = TigeraSecureEnterprise
      then andThen (as_read_management cli)
             (\<lambda>(trustedBundle0, applicationLayer, managementCluster, managementClusterConnection).
           andThen (as_read_tunnel r cli managementCluster) (\<lambda>tunnelCAKeyPair.
           andThen (as_read_tier r cli) (\<lambda>includeV3NetworkPolicy.
           andThen (as_read_authentication cli trustedBundle0) (\<lambda>(trustedBundle, keyValidatorConfig).
             Inr (\<lparr>ae_tunnelCAKeyPair = tunnelCAKeyPair, ae_trustedBundle = Some trustedBundle,
                   ae_applicationLayer = applicationLayer, ae_managementCluster = managementCluster,
                   ae_managementClusterConnection = managementClusterConnection,
                   ae_keyValidatorConfig = keyValidatorConfig,
                   ae_includeV3NetworkPolicy = includeV3NetworkPolicy\<rparr>, [])))))
      else Inr (as_no_enterprise, []))"

text \<open>
  \<open>canCleanupLegacyNamespace\<close>: evaluated while the configuration is built. A Deployment
  that is not found leaves the zero value, with no available replicas.
\<close>

definition canCleanupLegacyNamespace ::
  "as_cluster \<Rightarrow> ProductVariant \<Rightarrow> bool \<times> as_call list" where
  "canCleanupLegacyNamespace cli variant =
     (let newNamespace = ''calico-system'';
          oldNamespace = (if variant = Calico then ''calico-apiserver'' else ''tigera-system'');
          deploymentName = ''calico-apiserver'';
          reads1 = [Get (Read_Deployment deploymentName newNamespace)]
      in case as_Get_Deployment cli deploymentName newNamespace of
           Inl err \<Rightarrow> (False, reads1)
         | Inr newDeploy \<Rightarrow>
             if AvailableReplicas newDeploy = 0 then (False, reads1)
             else
               let reads2 = reads1 @ [Get (Read_Deployment deploymentName oldNamespace)]
               in case as_Get_Deployment cli deploymentName oldNamespace of
                    Inl err \<Rightarrow>
                      if \<not> IsNotFound err then (False, reads2)
                      else
                        let reads3 = reads2 @ [Get Read_APIServerReady]
                        in if \<not> as_IsAPIServerReady cli then (False, reads3)
                           else (case as_Get_TigeraStatus cli of
                                   Inl err \<Rightarrow> (False, reads3 @ [Get Read_TigeraStatus])
                                 | Inr ts \<Rightarrow> (ts_Available ts, reads3 @ [Get Read_TigeraStatus]))
                  | Inr oldDeploy \<Rightarrow>
                      if 0 <s AvailableReplicas oldDeploy then (False, reads2)
                      else
                        let reads3 = reads2 @ [Get Read_APIServerReady]
                        in if \<not> as_IsAPIServerReady cli then (False, reads3)
                           else (case as_Get_TigeraStatus cli of
                                   Inl err \<Rightarrow> (False, reads3 @ [Get Read_TigeraStatus])
                                 | Inr ts \<Rightarrow> (ts_Available ts, reads3 @ [Get Read_TigeraStatus])))"

text \<open>The configuration handed to the renderers.\<close>

definition apiServerCfg ::
  "ReconcileAPIServer \<Rightarrow> as_cluster \<Rightarrow> APIServer \<Rightarrow> as_base \<Rightarrow> as_enterprise \<Rightarrow> bool \<Rightarrow>
   APIServerConfiguration" where
  "apiServerCfg r cli instance base ent canCleanup =
     \<lparr>ac_K8SServiceEndpoint = as_k8sapi_Endpoint cli,
      ac_Installation = ab_installationSpec base,
      ac_APIServer = as_Spec instance,
      ac_ForceHostNetwork = False,
      ac_ApplicationLayer = ae_applicationLayer ent,
      ac_ManagementCluster = ae_managementCluster ent,
      ac_ManagementClusterConnection = ae_managementClusterConnection ent,
      ac_TLSKeyPair = Some (ab_tlsSecret base),
      ac_PullSecrets = ab_pullSecrets base,
      ac_OpenShift = ras_provider_IsOpenShift r,
      ac_TrustedBundle = ae_trustedBundle ent,
      ac_MultiTenant = ras_multiTenant r,
      ac_KeyValidatorConfig = ae_keyValidatorConfig ent,
      ac_KubernetesVersion = ras_kubernetesVersion r,
      ac_CanCleanupOlderResources = canCleanup,
      ac_QueryServerTLSKeyPairCertificateManagementOnly = ab_queryServerTLSSecret base\<rparr>"

definition as_certificate_management :: "as_base \<Rightarrow> as_enterprise \<Rightarrow> as_component" where
  "as_certificate_management base ent =
     APIServerCertificateManagement
       \<lparr>cmc_Namespace = APIServerNamespace,
        cmc_ServiceAccounts = [APIServerServiceAccountName],
        cmc_KeyPairOptions = [(Some (ab_tlsSecret base), True, True),
                              (ae_tunnelCAKeyPair ent, False, True)],
        cmc_TrustedBundle = ae_trustedBundle ent\<rparr>"

text \<open>The loop \<open>for _, component := range components\<close>: it stops at the first failing apply.\<close>

fun as_apply_components :: "as_cluster \<Rightarrow> as_component list \<Rightarrow> (as_call, unit) step" where
  "as_apply_components cli [] = Inr ((), [])"
| "as_apply_components cli (component # components) =
     (case as_CreateOrUpdateOrDelete cli component of
        Some err \<Rightarrow>
          Inl (Result_empty, Some err,
               [Apply component,
                Manager (SetDegraded ResourceUpdateError ''Error creating / updating resource'' (Some err))])
      | None \<Rightarrow>
          andThen (Inr ((), [Apply component])) (\<lambda>_. as_apply_components cli components))"

text \<open>
  From the service endpoint to the last apply: the finalizer is maintained once the
  reads have succeeded, then the components are rendered and applied.
\<close>

definition as_render_and_apply ::
  "ReconcileAPIServer \<Rightarrow> as_cluster \<Rightarrow> APIServer \<Rightarrow> as_base \<Rightarrow> as_enterprise \<Rightarrow>
   (as_call, unit) step" where
  "as_render_and_apply r cli instance base ent =
     andThen (get Read_K8sServiceEndpoint (as_PopulateK8sServiceEndPoint cli)) (\<lambda>answer.
     case answer of
       Some err \<Rightarrow>
         as_degraded_return ResourceReadError ''Error reading services endpoint configmap'' (Some err)
           Result_empty (Some err)
     | None \<Rightarrow>
     andThen (Inr (fst (maintainFinalizer cli (Some instance)),
                   snd (maintainFinalizer cli (Some instance)))) (\<lambda>answer.
     case answer of
       Some err \<Rightarrow>
         as_degraded_return ResourceReadError ''Error setting finalizer on Installation'' (Some err)
           Result_empty (Some err)
     | None \<Rightarrow>
     andThen (Inr (fst (canCleanupLegacyNamespace cli (Variant (ab_installationSpec base))),
                   snd (canCleanupLegacyNamespace cli (Variant (ab_installationSpec base))))) (\<lambda>canCleanup.
     let cfg = apiServerCfg r cli instance base ent canCleanup;
         components0 = (if ae_includeV3NetworkPolicy ent then [APIServerPolicy cfg] else []);
         rendered0 = map Render components0
     in case as_Render_APIServer cli cfg of
          Some err \<Rightarrow>
            Inl (Result_empty, Some err,
                 rendered0 @
                 [Render (APIServerComponent cfg),
                  Manager (SetDegraded ResourceRenderingError ''Error rendering APIServer'' (Some err))])
        | None \<Rightarrow>
     let components = components0 @ [APIServerComponent cfg, as_certificate_management base ent];
         rendered = rendered0 @ [Render (APIServerComponent cfg), Render (as_certificate_management base ent)]
     in case as_ApplyImageSet cli components of
          Some err \<Rightarrow>
            Inl (Result_empty, Some err,
                 rendered @
                 [ResolveImages components,
                  Manager (SetDegraded ResourceUpdateError ''Error with images from ImageSet'' (Some err))])
        | None \<Rightarrow>
            andThen (Inr ((), rendered @ [ResolveImages components])) (\<lambda>_.
              as_apply_components cli components))))"

text \<open>Clearing the degraded bit, the availability check and the final status update.\<close>

definition as_finish :: "as_cluster \<Rightarrow> APIServer \<Rightarrow> Result \<times> error option \<times> as_call list" where
  "as_finish cli instance =
     (if \<not> as_IsAvailable cli
      then (\<lparr>RequeueAfter = StandardRetry\<rparr>, None, [Manager ClearDegraded])
      else let instance' = instance\<lparr>as_Status := (as_Status instance)\<lparr>as_State := TigeraStatusReady\<rparr>\<rparr>
           in (case as_Status_Update_state cli of
                 Some err \<Rightarrow> (Result_empty, Some err, [Manager ClearDegraded, UpdateStatus instance'])
               | None \<Rightarrow> (Result_empty, None, [Manager ClearDegraded, UpdateStatus instance'])))"

text \<open>The body after the validation, up to the last apply.\<close>

definition as_converge ::
  "ReconcileAPIServer \<Rightarrow> as_cluster \<Rightarrow> Request \<Rightarrow> APIServer \<Rightarrow> (as_call, APIServer) step" where
  "as_converge r cli request instance0 =
     andThen (as_status_conditions cli request instance0) (\<lambda>instance.
     andThen (as_read_base cli) (\<lambda>base.
     andThen (as_read_enterprise r cli (ab_installationSpec base)) (\<lambda>ent.
     andThen (as_render_and_apply r cli instance base ent) (\<lambda>_.
       Inr (instance, [])))))"

text \<open>
  \<open>Reconcile\<close> of the APIServer controller: the result, the error and the trace. When the
  APIServer resource is not found, the finalizer is maintained with no resource. The
  deferred \<open>SetMetaData\<close> runs at every return that follows the validation.
\<close>

definition APIServer_Reconcile ::
  "ReconcileAPIServer \<Rightarrow> as_cluster \<Rightarrow> Request \<Rightarrow> Result \<times> error option \<times> as_call list" where
  "APIServer_Reconcile r cli request =
     (case as_GetAPIServer cli of
        Inl (err, msg) \<Rightarrow>
          if IsNotFound err
          then (Result_empty, fst (maintainFinalizer cli None),
                [Get Read_APIServer, Manager OnCRNotFound] @ snd (maintainFinalizer cli None))
          else (Result_empty, Some err,
                [Get Read_APIServer,
                 Manager (SetDegraded ResourceReadError
                   (''An error occurred when querying the APIServer resource: '' @ msg) (Some err))])
      | Inr instance0 \<Rightarrow>
          (case validateAPIServerResource cli instance0 of
             Some err \<Rightarrow>
               (Result_empty, Some err,
                [Get Read_APIServer, Manager OnCRFound,
                 Manager (SetDegraded ResourceValidationError ''APIServer is invalid'' (Some err))])
           | None \<Rightarrow>
               (case as_converge r cli request instance0 of
                  Inl (res, err, calls) \<Rightarrow>
                    (res, err, [Get Read_APIServer, Manager OnCRFound] @ calls @ [Manager SetMetaData])
                | Inr (instance, calls) \<Rightarrow>
                    (case as_finish cli instance of
                       (res, err, calls') \<Rightarrow>
                         (res, err,
                          [Get Read_APIServer, Manager OnCRFound] @ calls @ calls' @
                          [Manager SetMetaData])))))"

text \<open>Reading a trace of the APIServer controller.\<close>

fun as_status_calls :: "as_call list \<Rightarrow> status_call list" where
  "as_status_calls [] = []"
| "as_status_calls (Manager c # cs) = c # as_status_calls cs"
| "as_status_calls (c # cs) = as_status_calls cs"

fun as_reads :: "as_call list \<Rightarrow> as_read list" where
  "as_reads [] = []"
| "as_reads (Get what # cs) = what # as_reads cs"
| "as_reads (c # cs) = as_reads cs"

fun as_rendered :: "as_call list \<Rightarrow> as_component list" where
  "as_rendered [] = []"
| "as_rendered (Render component # cs) = component # as_rendered cs"
| "as_rendered (c # cs) = as_rendered cs"

fun as_applied :: "as_call list \<Rightarrow> as_component list" where
  "as_applied [] = []"
| "as_applied (Apply component # cs) = component # as_applied cs"
| "as_applied (c # cs) = as_applied cs"

text \<open>The reads that only the enterprise variant makes.\<close>

fun enterprise_only :: "as_read \<Rightarrow> bool" where
  "enterprise_only Read_TrustedBundle = True"
| "enterprise_only Read_ApplicationLayer = True"
| "enterprise_only Read_ManagementCluster = True"
| "enterprise_only Read_ManagementClusterConnection = True"
| "enterprise_only (Read_Secret name ns) = True"
| "enterprise_only Read_Tier = True"
| "enterprise_only (Read_Certificate name ns) = True"
| "enterprise_only Read_Authentication = True"
| "enterprise_only Read_KeyValidatorConfig = True"
| "enterprise_only what = False"

section \<open>Notions the results are stated with\<close>

text \<open>The request that makes \<open>Reconcile\<close> refresh the status conditions.\<close>

definition for_tigerastatus :: "Request \<Rightarrow> bool" where
  "for_tigerastatus request \<longleftrightarrow> req_Name request = ResourceName \<and> req_Namespace request = []"

text \<open>
  The returned error is the one of the failed read of the TigeraStatus, or of the failed
  update of the status conditions.
\<close>

definition conditions_failure :: "lc_cluster \<Rightarrow> Request \<Rightarrow> error option \<Rightarrow> bool" where
  "conditions_failure cli request err \<longleftrightarrow>
     for_tigerastatus request \<and>
     (\<exists>e. err = Some e \<and>
        (lc_Get_TigeraStatus cli = Inl e \<or>
         (\<not> isl (lc_Get_TigeraStatus cli) \<and> lc_Status_Update_conditions cli = Some e)))"

text \<open>The returned error is the one of the failed query for Windows nodes.\<close>

definition windows_query_failure :: "lc_cluster \<Rightarrow> error option \<Rightarrow> bool" where
  "windows_query_failure cli err \<longleftrightarrow> (\<exists>e. err = Some e \<and> lc_HasWindowsNodes cli = Inl e)"

text \<open>Every status update of the trace writes the state \<open>s\<close>.\<close>

definition keeps_state :: "string \<Rightarrow> lc_call list \<Rightarrow> bool" where
  "keeps_state s cs \<longleftrightarrow> (\<forall>u \<in> set (status_updates cs). State (Status u) = s)"

text \<open>
  Every component has been applied successfully: the three components, and the fourth
  when the cluster has Windows nodes, were handed to \<open>CreateOrUpdateOrDelete\<close> and each
  call returned no error.
\<close>

definition all_applied :: "lc_cluster \<Rightarrow> lc_call list \<Rightarrow> bool" where
  "all_applied cli calls \<longleftrightarrow>
     (case lc_HasWindowsNodes cli of
        Inl e \<Rightarrow> False
      | Inr b \<Rightarrow> length (applied calls) = (if b then 4 else 3)) \<and>
     list_all (\<lambda>c. lc_CreateOrUpdateOrDelete cli c = None) (applied calls)"

text \<open>
  \<open>SetDegraded\<close> is the last call on the status manager before the return (the deferred
  \<open>SetMetaData\<close> apart).
\<close>

definition degraded_before_return :: "lc_call list \<Rightarrow> bool" where
  "degraded_before_return calls \<longleftrightarrow>
     (\<exists>pre reason msg e.
        status_calls calls = pre @ [SetDegraded reason msg e] \<or>
        status_calls calls = pre @ [SetDegraded reason msg e, SetMetaData])"

text \<open>The syslog store of an instance, when it has one.\<close>

definition syslogOf :: "LogCollector \<Rightarrow> SyslogStoreSpec option" where
  "syslogOf i = (case AdditionalStores (Spec i) of None \<Rightarrow> None | Some st \<Rightarrow> Syslog st)"

section \<open>Notions the proofs use\<close>

text \<open>A property of the trace of a stretch, whether it returns or falls through.\<close>

definition traces_sat :: "('c list \<Rightarrow> bool) \<Rightarrow> ('c, 'a) step \<Rightarrow> bool" where
  "traces_sat Q m = (case m of Inl (res, err, cs) \<Rightarrow> Q cs | Inr (a, cs) \<Rightarrow> Q cs)"

text \<open>A property of the returns of a stretch.\<close>

definition exits_sat :: "(Result \<Rightarrow> error option \<Rightarrow> 'c list \<Rightarrow> bool) \<Rightarrow> ('c, 'a) step \<Rightarrow> bool" where
  "exits_sat E m = (case m of Inl (res, err, cs) \<Rightarrow> E res err cs | Inr (a, cs) \<Rightarrow> True)"

definition harmless :: "lc_call list \<Rightarrow> bool" where
  "harmless cs \<longleftrightarrow>
     applied cs = [] \<and> image_sets cs = [] \<and> status_updates cs = [] \<and>
     ClearDegraded \<notin> set (status_calls cs)"

definition degrading :: "lc_call list \<Rightarrow> bool" where
  "degrading cs \<longleftrightarrow> (\<exists>pre reason msg e. cs = pre @ [StatusManager (SetDegraded reason msg e)])"

definition pre_apply :: "(lc_call, 'a) step \<Rightarrow> bool" where
  "pre_apply m \<longleftrightarrow> traces_sat harmless m \<and> exits_sat (\<lambda>res err cs. degrading cs) m"

definition reading :: "string \<Rightarrow> lc_call list \<Rightarrow> bool" where
  "reading s cs \<longleftrightarrow>
     applied cs = [] \<and> image_sets cs = [] \<and> ClearDegraded \<notin> set (status_calls cs) \<and>
     keeps_state s cs"

definition read_ok :: "lc_cluster \<Rightarrow> Request \<Rightarrow> string \<Rightarrow> (lc_call, 'a) step \<Rightarrow> bool" where
  "read_ok cli request s m \<longleftrightarrow>
     traces_sat (reading s) m \<and>
     exits_sat (\<lambda>res err cs. degrading cs \<or> res = Result_empty \<and> conditions_failure cli request err) m"

definition failed_apply :: "lc_cluster \<Rightarrow> lc_call list \<Rightarrow> bool" where
  "failed_apply cli cs \<longleftrightarrow> (\<exists>c \<in> set (applied cs). lc_CreateOrUpdateOrDelete cli c \<noteq> None)"

definition linux_components ::
  "ReconcileLogCollector \<Rightarrow> lc_read \<Rightarrow> lc_component list" where
  "linux_components r rd =
     (case rd of (instance, inst, certs, stores, sources) \<Rightarrow>
        [setUp r inst,
         Fluentd (linuxFluentdCfg r instance inst certs stores sources),
         CertificateManagement (certificateComponent instance inst certs stores sources)])"

definition windows_component :: "ReconcileLogCollector \<Rightarrow> lc_read \<Rightarrow> lc_component" where
  "windows_component r rd =
     (case rd of (instance, inst, certs, stores, sources) \<Rightarrow>
        Fluentd (windowsFluentdCfg r instance inst certs stores sources))"

section \<open>Concrete inputs\<close>

definition eks_secret_present :: secret_client where
  "eks_secret_present = (\<lambda>name ns. Inr \<lparr>secret_Data = [''aws-id'' \<mapsto> ''AKIA'', ''aws-key'' \<mapsto> ''k3y'']\<rparr>)"

definition eks_secret_absent :: secret_client where
  "eks_secret_absent = (\<lambda>name ns. Inl (NotFound ''secret not found''))"

text \<open>A LogCollector with a syslog store that was created before \<open>logTypes\<close> existed.\<close>

definition upgraded_instance :: LogCollector where
  "upgraded_instance =
     \<lparr>Spec = \<lparr>AdditionalStores =
                Some \<lparr>S3 = None,
                      Syslog = Some \<lparr>Endpoint = ''tcp://1.2.3.4:514'', LogTypes = [], Encryption = []\<rparr>,
                      Splunk = None\<rparr>,
              AdditionalSources = None,
              CollectProcessPath = None,
              MultiTenantManagementClusterNamespace = []\<rparr>,
      Status = \<lparr>State = [], Conditions = []\<rparr>\<rparr>"

text \<open>A reconciler, two requests and a cluster in which every read and write succeeds.\<close>

definition plain_instance :: LogCollector where
  "plain_instance =
     \<lparr>Spec = \<lparr>AdditionalStores = None, AdditionalSources = None,
              CollectProcessPath = Some ''Enabled'',
              MultiTenantManagementClusterNamespace = []\<rparr>,
      Status = \<lparr>State = [], Conditions = []\<rparr>\<rparr>"

definition reconciler0 :: ReconcileLogCollector where
  "reconciler0 =
     \<lparr>provider_IsOpenShift = False, clusterDomain = ''cluster.local'', licenseAPIReady = True,
      tierWatchReady = True, multiTenant = False, externalElastic = False\<rparr>"

definition request0 :: Request where
  "request0 = \<lparr>req_Name = ''tigera-secure'', req_Namespace = []\<rparr>"

definition tigerastatus_request :: Request where
  "tigerastatus_request = \<lparr>req_Name = ''log-collector'', req_Namespace = []\<rparr>"

definition healthy_cluster :: lc_cluster where
  "healthy_cluster =
     \<lparr>lc_Get_LogCollector = Inr plain_instance,
      lc_ParseEndpoint = (\<lambda>endpoint. None),
      lc_Get_TigeraStatus = Inr [],
      lc_UpdateStatusCondition = (\<lambda>old new. new),
      lc_Status_Update_conditions = None,
      lc_Patch = None,
      lc_IsAPIServerReady = True,
      lc_Get_Tier = None,
      lc_FetchLicenseKey = Inr [''export-logs''],
      lc_GetInstallation =
        Inr (''TigeraSecureEnterprise'',
             \<lparr>Variant = ''TigeraSecureEnterprise'', KubernetesProvider_IsEKS = False,
              inst_CertificateManagement = None, ControlPlaneReplicas = Some 2, ImagePullSecrets = []\<rparr>),
      lc_GetNetworkingPullSecrets = Inr [],
      lc_GetManagementClusterConnection = (None, None),
      lc_GetManagementCluster = Inr None,
      lc_CertificateManager_Create = None,
      lc_GetOrCreateKeyPair = (\<lambda>name. Inr name),
      lc_GetCertificate = (\<lambda>name ns. Inr (Some \<lparr>cert_Name = name, cert_Namespace = ns, cert_PEM = ''pem''\<rparr>)),
      lc_GetTenant = (\<lambda>ns. Inr None),
      lc_CreateTrustedBundle = (\<lambda>certs. Inr certs),
      lc_IsFeatureActive = (\<lambda>license feature. List.member license feature),
      lc_Get_Secret = (\<lambda>name ns. Inl (NotFound ''secret not found'')),
      lc_Get_ConfigMap = (\<lambda>name ns. Inl (NotFound ''configmap not found'')),
      lc_GetElasticsearchClusterConfig = Inr ''cluster'',
      lc_GetPacketCaptureAPI = (None, Some (NotFound ''packetcapture not found'')),
      lc_GetNonClusterHost = Inr None,
      lc_ApplyImageSet = (\<lambda>component. None),
      lc_CreateOrUpdateOrDelete = (\<lambda>component. None),
      lc_HasWindowsNodes = Inr False,
      lc_IsAvailable = True,
      lc_Status_Update_state = None\<rparr>"

text \<open>The same cluster without a licence, with Windows nodes, and not yet available.\<close>

definition unlicensed_cluster :: lc_cluster where
  "unlicensed_cluster = healthy_cluster\<lparr>lc_FetchLicenseKey := Inl (NotFound ''license not found'')\<rparr>"

definition windows_cluster :: lc_cluster where
  "windows_cluster = healthy_cluster\<lparr>lc_HasWindowsNodes := Inr True\<rparr>"

definition unavailable_cluster :: lc_cluster where
  "unavailable_cluster = healthy_cluster\<lparr>lc_IsAvailable := False\<rparr>"

text \<open>The same cluster when the TigeraStatus cannot be read.\<close>

definition tigerastatus_unreadable_cluster :: lc_cluster where
  "tigerastatus_unreadable_cluster =
     healthy_cluster\<lparr>lc_Get_TigeraStatus := Inl (Other ''tigerastatus unavailable'')\<rparr>"

(*DEFS-END*)


section \<open>Results on the helpers\<close>

lemma defaultSyslog_eq:
  "defaultSyslog sy =
     (sy\<lparr>LogTypes := (if LogTypes sy = [] then [SyslogLogAudit, SyslogLogDNS, SyslogLogFlows] else LogTypes sy),
         Encryption := (if Encryption sy = [] then EncryptionNone else Encryption sy)\<rparr>,
      (if LogTypes sy = [] then [''AdditionalStores.Syslog.LogTypes''] else []) @
      (if Encryption sy = [] then [''AdditionalStores.Syslog.Encryption''] else []))"
  by (simp add: defaultSyslog_def)

text \<open>
  C9. \<open>fillDefaults\<close> changes only unset fields: a nil \<open>CollectProcessPath\<close> becomes
  \<open>Enable\<close>; where a syslog store is present, an empty \<open>LogTypes\<close> becomes exactly
  \<open>[Audit, DNS, Flows]\<close> (\<open>IDSEvents\<close> is not among them) and an empty \<open>Encryption\<close>
  becomes \<open>None\<close>; every other field of the instance is left as it was. The list it
  returns names exactly the fields it set, in that order, and applying it a second time
  changes nothing and returns the empty list.
\<close>

theorem fillDefaults_sets_only_unset_fields:
  "fst (fillDefaults i) =
     i\<lparr>Spec := (Spec i)
        \<lparr>CollectProcessPath :=
           (case CollectProcessPath (Spec i) of None \<Rightarrow> Some CollectProcessPathEnable | Some v \<Rightarrow> Some v),
         AdditionalStores :=
           map_option (\<lambda>st. st\<lparr>Syslog :=
             map_option (\<lambda>sy. sy
               \<lparr>LogTypes := (if LogTypes sy = [] then [SyslogLogAudit, SyslogLogDNS, SyslogLogFlows]
                              else LogTypes sy),
                Encryption := (if Encryption sy = [] then EncryptionNone else Encryption sy)\<rparr>)
               (Syslog st)\<rparr>)
             (AdditionalStores (Spec i))\<rparr>\<rparr>
   \<and> snd (fillDefaults i) =
       (if CollectProcessPath (Spec i) = None then [''CollectProcessPath''] else []) @
       (case syslogOf i of None \<Rightarrow> []
        | Some sy \<Rightarrow>
           (if LogTypes sy = [] then [''AdditionalStores.Syslog.LogTypes''] else []) @
           (if Encryption sy = [] then [''AdditionalStores.Syslog.Encryption''] else []))
   \<and> SyslogLogIDSEvents \<notin> set [SyslogLogAudit, SyslogLogDNS, SyslogLogFlows]
   \<and> fillDefaults (fst (fillDefaults i)) = (fst (fillDefaults i), [])"
  apply (cases i; cases "Spec i"; cases "AdditionalStores (Spec i)")
  apply (auto simp: fillDefaults_def defaultCollectProcessPath_def defaultSyslog_eq syslogOf_def
     EncryptionNone_def SyslogLogIDSEvents_def SyslogLogAudit_def SyslogLogDNS_def SyslogLogFlows_def
     split: option.splits prod.splits)
  done

theorem fillDefaults_sets_only_unset_fields_witness:
  "fillDefaults upgraded_instance =
     (upgraded_instance\<lparr>Spec := \<lparr>AdditionalStores =
                Some \<lparr>S3 = None,
                      Syslog = Some \<lparr>Endpoint = ''tcp://1.2.3.4:514'',
                                     LogTypes = [''Audit'', ''DNS'', ''Flows''], Encryption = ''None''\<rparr>,
                      Splunk = None\<rparr>,
              AdditionalSources = None,
              CollectProcessPath = Some ''Enabled'',
              MultiTenantManagementClusterNamespace = []\<rparr>\<rparr>,
      [''CollectProcessPath'', ''AdditionalStores.Syslog.LogTypes'', ''AdditionalStores.Syslog.Encryption''])"
  using fillDefaults_sets_only_unset_fields [of upgraded_instance]
  by (simp add: prod_eq_iff upgraded_instance_def syslogOf_def CollectProcessPathEnable_def
      SyslogLogAudit_def SyslogLogDNS_def SyslogLogFlows_def EncryptionNone_def)

text \<open>
  C10. \<open>getEksCloudwatchLogConfig\<close> returns an error exactly when the region is empty,
  the group name is empty, the eks-log-forwarder secret exists but has no non-empty AWS
  id or key, or reading the secret fails with an error other than not-found. With region
  and group given and the secret absent it returns nil and no error. Otherwise it
  returns the configuration: the secret's id and key, region and group as given, the
  stream prefix defaulted to \<open>kube-apiserver-audit-\<close> when empty and the fetch interval
  defaulted to 60 when 0.
\<close>

theorem getEksCloudwatchLogConfig_cases:
  "(isl (getEksCloudwatchLogConfig client interval region groupName prefix) \<longleftrightarrow>
      region = [] \<or> groupName = [] \<or>
      (\<exists>s. client EksLogForwarderSecret OperatorNamespace = Inr s \<and>
           (data_at (secret_Data s) EksLogForwarderAwsId = [] \<or>
            data_at (secret_Data s) EksLogForwarderAwsKey = [])) \<or>
      (\<exists>e. client EksLogForwarderSecret OperatorNamespace = Inl e \<and> \<not> IsNotFound e))
   \<and> (region \<noteq> [] \<and> groupName \<noteq> [] \<and>
        (\<exists>e. client EksLogForwarderSecret OperatorNamespace = Inl e \<and> IsNotFound e) \<longrightarrow>
        getEksCloudwatchLogConfig client interval region groupName prefix = Inr None)
   \<and> (\<forall>s. region \<noteq> [] \<and> groupName \<noteq> [] \<and>
        client EksLogForwarderSecret OperatorNamespace = Inr s \<and>
        data_at (secret_Data s) EksLogForwarderAwsId \<noteq> [] \<and>
        data_at (secret_Data s) EksLogForwarderAwsKey \<noteq> [] \<longrightarrow>
        getEksCloudwatchLogConfig client interval region groupName prefix =
          Inr (Some \<lparr>AwsId = data_at (secret_Data s) EksLogForwarderAwsId,
                     AwsKey = data_at (secret_Data s) EksLogForwarderAwsKey,
                     AwsRegion = region,
                     cfg_GroupName = groupName,
                     cfg_StreamPrefix = (if prefix = [] then ''kube-apiserver-audit-'' else prefix),
                     cfg_FetchInterval = (if interval = 0 then 60 else interval)\<rparr>))"
  by (auto simp: getEksCloudwatchLogConfig_def Let_def split: sum.splits)

theorem getEksCloudwatchLogConfig_cases_witness:
  "getEksCloudwatchLogConfig eks_secret_present 0 ''us-west-2'' ''audit-group'' [] =
     Inr (Some \<lparr>AwsId = ''AKIA'', AwsKey = ''k3y'', AwsRegion = ''us-west-2'',
                cfg_GroupName = ''audit-group'', cfg_StreamPrefix = ''kube-apiserver-audit-'',
                cfg_FetchInterval = 60\<rparr>)
   \<and> getEksCloudwatchLogConfig eks_secret_absent 0 ''us-west-2'' ''audit-group'' [] = Inr None
   \<and> isl (getEksCloudwatchLogConfig eks_secret_present 0 [] ''audit-group'' [])"
  using getEksCloudwatchLogConfig_cases [of eks_secret_present 0 "''us-west-2''" "''audit-group''" "[]"]
        getEksCloudwatchLogConfig_cases [of eks_secret_absent 0 "''us-west-2''" "''audit-group''" "[]"]
        getEksCloudwatchLogConfig_cases [of eks_secret_present 0 "[]" "''audit-group''" "[]"]
  by (simp add: eks_secret_present_def eks_secret_absent_def data_at_def
      EksLogForwarderAwsId_def EksLogForwarderAwsKey_def)

section \<open>Results on ReconcileLogCollector.Reconcile\<close>

lemma status_calls_append [simp]: "status_calls (a @ b) = status_calls a @ status_calls b"
  by (induction a rule: status_calls.induct) auto

lemma applied_append [simp]: "applied (a @ b) = applied a @ applied b"
  by (induction a rule: applied.induct) auto

lemma status_updates_append [simp]: "status_updates (a @ b) = status_updates a @ status_updates b"
  by (induction a rule: status_updates.induct) auto

lemma fluentd_OSTypes_append [simp]:
  "fluentd_OSTypes (a @ b) = fluentd_OSTypes a @ fluentd_OSTypes b"
  by (induction a rule: fluentd_OSTypes.induct) auto

lemma image_sets_append [simp]: "image_sets (a @ b) = image_sets a @ image_sets b"
  by (induction a rule: image_sets.induct) auto

lemma degraded_after_append [simp]:
  "degraded_after d (a @ b) = degraded_after (degraded_after d a) b"
  by (induction d a rule: degraded_after.induct) auto

lemma andThen_InlE:
  assumes "andThen m f = Inl (res, err, cs)"
  obtains "m = Inl (res, err, cs)"
  | a cs1 cs2 where "m = Inr (a, cs1)" "f a = Inl (res, err, cs2)" "cs = cs1 @ cs2"
  using assms by (auto simp: andThen_def split: sum.splits prod.splits)

lemma andThen_InrE:
  assumes "andThen m f = Inr (b, cs)"
  obtains a cs1 cs2 where "m = Inr (a, cs1)" "f a = Inr (b, cs2)" "cs = cs1 @ cs2"
  using assms by (auto simp: andThen_def split: sum.splits prod.splits)

lemma traces_sat_andThen:
  assumes "traces_sat Q m" "\<And>a. traces_sat Q (f a)" "\<And>a b. Q a \<Longrightarrow> Q b \<Longrightarrow> Q (a @ b)"
  shows "traces_sat Q (andThen m f)"
  using assms(1) assms(2) assms(3)
  apply (cases m)
   apply (auto simp: traces_sat_def andThen_def split: sum.splits prod.splits)
   apply (metis old.sum.simps(5) case_prod_conv)
  apply (metis old.sum.simps(6) case_prod_conv)
  done

lemma exits_sat_andThen:
  assumes "exits_sat E m" "\<And>a. exits_sat E (f a)" "\<And>res err a b. E res err b \<Longrightarrow> E res err (a @ b)"
  shows "exits_sat E (andThen m f)"
  using assms(1) assms(2) assms(3)
  apply (cases m)
   apply (auto simp: exits_sat_def andThen_def split: sum.splits prod.splits)
  apply (metis old.sum.simps(5) case_prod_conv)
  done

lemma harmless_append: "harmless a \<Longrightarrow> harmless b \<Longrightarrow> harmless (a @ b)"
  by (simp add: harmless_def)

lemma degrading_append: "degrading b \<Longrightarrow> degrading (a @ b)"
  unfolding degrading_def by (metis append_assoc)

lemma degrading_single [simp]: "degrading [StatusManager (SetDegraded reason msg e)]"
  unfolding degrading_def by (metis append_Nil)

lemma degrading_two [simp]: "degrading [c, StatusManager (SetDegraded reason msg e)]"
  unfolding degrading_def by (metis append_Cons append_Nil)

lemma degrading_three [simp]: "degrading [c, c', StatusManager (SetDegraded reason msg e)]"
  unfolding degrading_def by (metis append_Cons append_Nil)

lemma pre_apply_andThen:
  "pre_apply m \<Longrightarrow> (\<And>a. pre_apply (f a)) \<Longrightarrow> pre_apply (andThen m f)"
  unfolding pre_apply_def
  by (meson traces_sat_andThen exits_sat_andThen harmless_append degrading_append)

lemma pre_apply_degraded_return [simp]: "pre_apply (degraded_return reason msg e res ret)"
  by (simp add: pre_apply_def traces_sat_def exits_sat_def degraded_return_def harmless_def)

lemma pre_apply_Inr_Nil [simp]: "pre_apply (Inr (a, []))"
  by (simp add: pre_apply_def traces_sat_def exits_sat_def harmless_def)

lemma pre_apply_defaults: "pre_apply (lc_defaults cli i)"
  by (simp add: lc_defaults_def pre_apply_def traces_sat_def exits_sat_def harmless_def
      split: prod.splits option.splits)

lemma pre_apply_prerequisites: "pre_apply (lc_prerequisites r cli)"
  by (simp add: lc_prerequisites_def split: option.splits sum.splits)

lemma pre_apply_read_installation: "pre_apply (lc_read_installation cli)"
  by (simp add: lc_read_installation_def Let_def split: option.splits sum.splits prod.splits)

lemma pre_apply_linseed_location: "pre_apply (lc_linseed_location r cli i inst)"
  by (simp add: lc_linseed_location_def Let_def split: option.splits sum.splits prod.splits)

lemma pre_apply_read_certificates: "pre_apply (lc_read_certificates r cli i inst)"
  unfolding lc_read_certificates_def
  apply (simp split: option.splits sum.splits)
  apply (intro allI impI conjI pre_apply_andThen pre_apply_linseed_location)
  apply (simp split: option.splits sum.splits prod.splits)
  apply (simp add: pre_apply_def traces_sat_def exits_sat_def harmless_def)
  done

lemma pre_apply_s3: "pre_apply (lc_s3 cli i)"
  by (simp add: lc_s3_def split: option.splits sum.splits)

lemma pre_apply_splunk: "pre_apply (lc_splunk cli i)"
  by (simp add: lc_splunk_def split: option.splits sum.splits)

lemma pre_apply_syslog_certificate: "pre_apply (lc_syslog_certificate cli i b)"
  by (simp add: lc_syslog_certificate_def split: option.splits sum.splits)

lemma pre_apply_syslog_logtypes: "pre_apply (lc_syslog_logtypes i b)"
  by (simp add: lc_syslog_logtypes_def split: option.splits sum.splits)

lemma pre_apply_read_stores: "pre_apply (lc_read_stores cli i lic mc b)"
  unfolding lc_read_stores_def Let_def
  by (auto intro!: pre_apply_andThen pre_apply_s3 pre_apply_splunk
      pre_apply_syslog_certificate pre_apply_syslog_logtypes split: prod.splits)

lemma pre_apply_eks: "pre_apply (lc_eks cli i inst)"
  by (simp add: lc_eks_def split: option.splits sum.splits)

lemma pre_apply_read_sources: "pre_apply (lc_read_sources cli i inst)"
  unfolding lc_read_sources_def
  apply (simp split: option.splits sum.splits)
  apply (intro allI impI conjI pre_apply_andThen pre_apply_eks)
  apply (simp add: Let_def split: option.splits sum.splits prod.splits)
  done

lemma reading_append: "reading s a \<Longrightarrow> reading s b \<Longrightarrow> reading s (a @ b)"
  by (auto simp: reading_def keeps_state_def)

lemma harmless_reading: "harmless cs \<Longrightarrow> reading s cs"
  by (simp add: harmless_def reading_def keeps_state_def)

lemma traces_sat_mono: "traces_sat Q m \<Longrightarrow> (\<And>cs. Q cs \<Longrightarrow> Q' cs) \<Longrightarrow> traces_sat Q' m"
  by (auto simp: traces_sat_def split: sum.splits)

lemma exits_sat_mono:
  "exits_sat E m \<Longrightarrow> (\<And>res err cs. E res err cs \<Longrightarrow> E' res err cs) \<Longrightarrow> exits_sat E' m"
  by (auto simp: exits_sat_def split: sum.splits)

lemma read_ok_andThen:
  "read_ok cli request s m \<Longrightarrow> (\<And>a. read_ok cli request s (f a)) \<Longrightarrow> read_ok cli request s (andThen m f)"
  unfolding read_ok_def
  apply (intro conjI traces_sat_andThen exits_sat_andThen)
  apply (auto intro: reading_append degrading_append)
  done

lemma pre_apply_read_ok: "pre_apply m \<Longrightarrow> read_ok cli request s m"
  unfolding pre_apply_def read_ok_def
  by (auto intro: traces_sat_mono exits_sat_mono harmless_reading)

lemma read_ok_status_conditions:
  "read_ok cli request (State (Status i)) (lc_status_conditions cli request i)"
  by (auto simp: read_ok_def lc_status_conditions_def traces_sat_def exits_sat_def reading_def
      keeps_state_def conditions_failure_def for_tigerastatus_def Let_def
      split: sum.splits option.splits)

lemma status_conditions_state:
  "lc_status_conditions cli request i = Inr (i', cs) \<Longrightarrow> State (Status i') = State (Status i)"
  by (auto simp: lc_status_conditions_def Let_def split: sum.splits option.splits if_splits)

lemma fillDefaults_state: "State (Status (fst (fillDefaults i))) = State (Status i)"
  by (auto simp: fillDefaults_def defaultCollectProcessPath_def Let_def
      split: option.splits prod.splits)

lemma defaults_state:
  "lc_defaults cli i = Inr (i', cs) \<Longrightarrow> State (Status i') = State (Status i)"
  using fillDefaults_state [of i]
  by (auto simp: lc_defaults_def Let_def split: sum.splits option.splits if_splits prod.splits)

lemma read_ok_read_state:
  "read_ok cli request (State (Status i0)) (lc_read_state r cli request i0)"
  unfolding lc_read_state_def
  apply (intro read_ok_andThen read_ok_status_conditions pre_apply_read_ok
      pre_apply_defaults pre_apply_prerequisites pre_apply_read_installation
      pre_apply_read_certificates pre_apply_read_stores pre_apply_read_sources)
  apply (simp add: read_ok_def traces_sat_def exits_sat_def reading_def keeps_state_def)
  done

lemma read_state_instance:
  assumes "lc_read_state r cli request i0 = Inr ((i, rest), cs)"
  shows "State (Status i) = State (Status i0)"
  using assms unfolding lc_read_state_def
  apply (elim andThen_InrE)
  apply (auto dest!: status_conditions_state defaults_state)
  done

lemma apply_components_Inr:
  "apply_components cli comps = Inr (u, cs) \<Longrightarrow>
     cs = map CreateOrUpdateOrDelete comps \<and> (\<forall>c \<in> set comps. lc_CreateOrUpdateOrDelete cli c = None)"
proof (induction comps arbitrary: cs)
  case Nil
  then show ?case by simp
next
  case (Cons c comps)
  from Cons.prems have ok: "lc_CreateOrUpdateOrDelete cli c = None"
    by (simp split: option.splits)
  with Cons.prems have "andThen (Inr ((), [CreateOrUpdateOrDelete c])) (\<lambda>_. apply_components cli comps) = Inr (u, cs)"
    by simp
  then obtain cs2 where "apply_components cli comps = Inr (u, cs2)" "cs = [CreateOrUpdateOrDelete c] @ cs2"
    by (auto elim!: andThen_InrE)
  with Cons.IH [of cs2] ok show ?case by simp
qed

lemma degrading_Cons: "degrading cs \<Longrightarrow> degrading (c # cs)"
  using degrading_append [of cs "[c]"] by simp

lemma apply_components_Inl:
  "apply_components cli comps = Inl (res, err, cs) \<Longrightarrow>
     degrading cs \<and> status_updates cs = [] \<and> ClearDegraded \<notin> set (status_calls cs) \<and>
     image_sets cs = [] \<and>
     failed_apply cli cs \<and> set (applied cs) \<subseteq> set comps \<and> err \<noteq> None"
proof (induction comps arbitrary: cs)
  case Nil
  then show ?case by simp
next
  case (Cons c comps)
  show ?case
  proof (cases "lc_CreateOrUpdateOrDelete cli c")
    case (Some e)
    with Cons.prems have "cs = [CreateOrUpdateOrDelete c,
        StatusManager (SetDegraded ResourceUpdateError ''Error creating / updating resource'' (Some e))]"
      and "err = Some e"
      by auto
    with Some show ?thesis by (simp add: failed_apply_def)
  next
    case None
    with Cons.prems have "andThen (Inr ((), [CreateOrUpdateOrDelete c])) (\<lambda>_. apply_components cli comps) = Inl (res, err, cs)"
      by simp
    then obtain cs2 where "apply_components cli comps = Inl (res, err, cs2)" "cs = [CreateOrUpdateOrDelete c] @ cs2"
      by (auto elim!: andThen_InlE)
    with Cons.IH [of cs2] show ?thesis
      by (auto simp: failed_apply_def intro: degrading_Cons)
  qed
qed

lemma lc_apply_linux_alt:
  "lc_apply_linux r cli i inst certs stores sources =
     (case lc_ApplyImageSet cli (Fluentd (linuxFluentdCfg r i inst certs stores sources)) of
        Some err \<Rightarrow>
          Inl (Result_empty, Some err,
               [ApplyImageSet (Fluentd (linuxFluentdCfg r i inst certs stores sources)),
                StatusManager (SetDegraded ResourceUpdateError ''Error with images from ImageSet'' (Some err))])
      | None \<Rightarrow>
          andThen (Inr ((), [ApplyImageSet (Fluentd (linuxFluentdCfg r i inst certs stores sources))]))
            (\<lambda>_. apply_components cli (linux_components r (i, inst, certs, stores, sources))))"
  by (simp add: lc_apply_linux_def linux_components_def Let_def split: option.split)

lemma apply_linux_Inr:
  assumes "lc_apply_linux r cli i inst certs stores sources = Inr (u, cs)"
  shows "applied cs = linux_components r (i, inst, certs, stores, sources) \<and>
         image_sets cs = [Fluentd (linuxFluentdCfg r i inst certs stores sources)] \<and>
         status_calls cs = [] \<and> status_updates cs = [] \<and>
         (\<forall>c \<in> set (applied cs). lc_CreateOrUpdateOrDelete cli c = None)"
proof -
  let ?comps = "linux_components r (i, inst, certs, stores, sources)"
  from assms obtain cs2 where a: "apply_components cli ?comps = Inr (u, cs2)"
    and b: "cs = [ApplyImageSet (Fluentd (linuxFluentdCfg r i inst certs stores sources))] @ cs2"
    unfolding lc_apply_linux_alt by (auto split: option.splits elim!: andThen_InrE)
  have m: "applied (map CreateOrUpdateOrDelete xs) = xs"
    "status_calls (map CreateOrUpdateOrDelete xs) = []"
    "status_updates (map CreateOrUpdateOrDelete xs) = []"
    "image_sets (map CreateOrUpdateOrDelete xs) = []" for xs
    by (induction xs) auto
  from apply_components_Inr [OF a] b m show ?thesis
    by simp
qed

lemma apply_linux_Inl:
  assumes "lc_apply_linux r cli i inst certs stores sources = Inl (res, err, cs)"
  shows "degrading cs \<and> status_updates cs = [] \<and> ClearDegraded \<notin> set (status_calls cs) \<and>
         image_sets cs = [Fluentd (linuxFluentdCfg r i inst certs stores sources)] \<and>
         (applied cs = [] \<or> failed_apply cli cs) \<and>
         set (applied cs) \<subseteq> set (linux_components r (i, inst, certs, stores, sources))"
proof (cases "lc_ApplyImageSet cli (Fluentd (linuxFluentdCfg r i inst certs stores sources))")
  case (Some e)
  with assms show ?thesis unfolding lc_apply_linux_alt by auto
next
  case None
  let ?comps = "linux_components r (i, inst, certs, stores, sources)"
  from assms None obtain cs2 where a: "apply_components cli ?comps = Inl (res, err, cs2)"
    and b: "cs = [ApplyImageSet (Fluentd (linuxFluentdCfg r i inst certs stores sources))] @ cs2"
    unfolding lc_apply_linux_alt by (auto elim!: andThen_InlE)
  from apply_components_Inl [OF a] b show ?thesis
    by (auto simp: failed_apply_def intro: degrading_Cons)
qed

lemma lc_apply_windows_alt:
  "lc_apply_windows r cli i inst certs stores sources =
     (case lc_HasWindowsNodes cli of
        Inl err \<Rightarrow> Inl (Result_empty, Some err, [])
      | Inr hasWindowsNodes \<Rightarrow>
          if hasWindowsNodes
          then (case lc_ApplyImageSet cli (windows_component r (i, inst, certs, stores, sources)) of
                  Some err \<Rightarrow>
                    Inl (Result_empty, Some err,
                         [ApplyImageSet (windows_component r (i, inst, certs, stores, sources)),
                          StatusManager (SetDegraded ResourceUpdateError
                            ''Error with images from ImageSet'' (Some err))])
                | None \<Rightarrow>
                    (case lc_CreateOrUpdateOrDelete cli (windows_component r (i, inst, certs, stores, sources)) of
                       Some err \<Rightarrow>
                         Inl (Result_empty, Some err,
                              [ApplyImageSet (windows_component r (i, inst, certs, stores, sources)),
                               CreateOrUpdateOrDelete (windows_component r (i, inst, certs, stores, sources)),
                               StatusManager (SetDegraded ResourceUpdateError
                                 ''Error creating / updating resource'' (Some err))])
                     | None \<Rightarrow>
                         Inr ((), [ApplyImageSet (windows_component r (i, inst, certs, stores, sources)),
                                   CreateOrUpdateOrDelete (windows_component r (i, inst, certs, stores, sources))])))
          else Inr ((), []))"
  by (simp add: lc_apply_windows_def windows_component_def Let_def split: sum.split option.split)

lemma apply_windows_Inr:
  assumes "lc_apply_windows r cli i inst certs stores sources = Inr (u, cs)"
  shows "\<exists>b. lc_HasWindowsNodes cli = Inr b \<and>
           applied cs = (if b then [windows_component r (i, inst, certs, stores, sources)] else []) \<and>
           image_sets cs = (if b then [windows_component r (i, inst, certs, stores, sources)] else []) \<and>
           status_calls cs = [] \<and> status_updates cs = [] \<and>
           (\<forall>c \<in> set (applied cs). lc_CreateOrUpdateOrDelete cli c = None)"
proof (cases "lc_HasWindowsNodes cli")
  case (Inl e)
  with assms show ?thesis by (simp add: lc_apply_windows_alt)
next
  case (Inr b)
  show ?thesis
  proof (cases b)
    case False
    with Inr assms show ?thesis
      by (intro exI [of _ False]) (simp add: lc_apply_windows_alt)
  next
    case True
    with Inr assms show ?thesis
      by (intro exI [of _ True]) (auto simp: lc_apply_windows_alt split: option.splits)
  qed
qed

lemma apply_windows_Inl:
  assumes "lc_apply_windows r cli i inst certs stores sources = Inl (res, err, cs)"
  shows "status_updates cs = [] \<and> ClearDegraded \<notin> set (status_calls cs) \<and>
         (cs = [] \<and> res = Result_empty \<and> windows_query_failure cli err \<or>
          degrading cs \<and> lc_HasWindowsNodes cli = Inr True \<and>
            (applied cs = [] \<or> failed_apply cli cs) \<and>
            image_sets cs = [windows_component r (i, inst, certs, stores, sources)] \<and>
            set (applied cs) \<subseteq> {windows_component r (i, inst, certs, stores, sources)})"
proof (cases "lc_HasWindowsNodes cli")
  case (Inl e)
  with assms show ?thesis
    by (auto simp: lc_apply_windows_alt windows_query_failure_def)
next
  case (Inr b)
  show ?thesis
  proof (cases b)
    case False
    with Inr assms show ?thesis by (simp add: lc_apply_windows_alt)
  next
    case True
    with Inr assms show ?thesis
      by (simp add: lc_apply_windows_alt failed_apply_def split: option.splits) auto
  qed
qed

lemma converge_cases:
  assumes "lc_converge r cli request i0 = X"
  obtains
    (read_exit) res err cs where "X = Inl (res, err, cs)"
      "lc_read_state r cli request i0 = Inl (res, err, cs)"
  | (linux_exit) i inst certs stores sources cs0 res err cs1 where
      "lc_read_state r cli request i0 = Inr ((i, inst, certs, stores, sources), cs0)"
      "lc_apply_linux r cli i inst certs stores sources = Inl (res, err, cs1)"
      "X = Inl (res, err, cs0 @ cs1)"
  | (windows_exit) i inst certs stores sources cs0 cs1 res err cs2 where
      "lc_read_state r cli request i0 = Inr ((i, inst, certs, stores, sources), cs0)"
      "lc_apply_linux r cli i inst certs stores sources = Inr ((), cs1)"
      "lc_apply_windows r cli i inst certs stores sources = Inl (res, err, cs2)"
      "X = Inl (res, err, cs0 @ cs1 @ cs2)"
  | (complete) i inst certs stores sources cs0 cs1 cs2 where
      "lc_read_state r cli request i0 = Inr ((i, inst, certs, stores, sources), cs0)"
      "lc_apply_linux r cli i inst certs stores sources = Inr ((), cs1)"
      "lc_apply_windows r cli i inst certs stores sources = Inr ((), cs2)"
      "X = Inr (i, cs0 @ cs1 @ cs2)"
proof (cases "lc_read_state r cli request i0")
  case (Inl x)
  then show ?thesis using assms read_exit
    by (cases x) (auto simp: lc_converge_def andThen_def)
next
  case (Inr y)
  obtain i inst certs stores sources cs0 where y: "y = ((i, inst, certs, stores, sources), cs0)"
    by (metis prod.exhaust)
  show ?thesis
  proof (cases "lc_apply_linux r cli i inst certs stores sources")
    case (Inl x)
    obtain res err cs1 where "x = (res, err, cs1)" by (metis prod.exhaust)
    with Inl Inr y assms show ?thesis
      by (intro linux_exit [of i inst certs stores sources cs0 res err cs1])
         (auto simp: lc_converge_def andThen_def)
  next
    case lin: (Inr z)
    obtain cs1 where z: "z = ((), cs1)" by (cases z) auto
    show ?thesis
    proof (cases "lc_apply_windows r cli i inst certs stores sources")
      case (Inl x)
      obtain res err cs2 where "x = (res, err, cs2)" by (metis prod.exhaust)
      with Inl lin z Inr y assms show ?thesis
        by (intro windows_exit [of i inst certs stores sources cs0 cs1 res err cs2])
           (auto simp: lc_converge_def andThen_def)
    next
      case win: (Inr w)
      obtain cs2 where "w = ((), cs2)" by (cases w) auto
      with win lin z Inr y assms show ?thesis
        by (intro complete [of i inst certs stores sources cs0 cs1 cs2])
           (auto simp: lc_converge_def andThen_def)
    qed
  qed
qed

lemma linux_components_shape:
  "\<exists>su linux cm.
     linux_components r rd = [NewSetup su, Fluentd linux, CertificateManagement cm] \<and>
     fc_OSType linux = OSTypeLinux \<and> su_Namespace su = LogCollectorNamespace \<and>
     su_CreateNamespace su"
  by (cases rd) (simp add: linux_components_def setUp_def linuxFluentdCfg_def)

lemma windows_component_shape:
  "\<exists>w. windows_component r rd = Fluentd w \<and> fc_OSType w = OSTypeWindows"
  by (cases rd) (simp add: windows_component_def windowsFluentdCfg_def)

lemma linux_OSTypes [simp]: "fluentd_OSTypes (linux_components r rd) = [OSTypeLinux]"
  using linux_components_shape [of r rd] by auto

lemma windows_OSTypes [simp]: "fluentd_OSTypes [windows_component r rd] = [OSTypeWindows]"
  using windows_component_shape [of r rd] by auto

lemma length_linux [simp]: "length (linux_components r rd) = 3"
  using linux_components_shape [of r rd] by auto

lemma degrading_status: "degrading cs \<Longrightarrow> \<exists>pre reason msg e. status_calls cs = pre @ [SetDegraded reason msg e]"
  unfolding degrading_def by auto

lemma read_state_Inl:
  assumes "lc_read_state r cli request i0 = Inl (res, err, cs)"
  shows "reading (State (Status i0)) cs \<and>
         (degrading cs \<or> res = Result_empty \<and> conditions_failure cli request err)"
  using read_ok_read_state [of cli request i0 r] assms
  by (simp add: read_ok_def traces_sat_def exits_sat_def)

lemma read_state_Inr:
  assumes "lc_read_state r cli request i0 = Inr ((i, rest), cs)"
  shows "reading (State (Status i0)) cs \<and> State (Status i) = State (Status i0)"
  using read_ok_read_state [of cli request i0 r] assms read_state_instance [OF assms]
  by (simp add: read_ok_def traces_sat_def exits_sat_def)

lemma linux_fluentd_OSType [simp]:
  "fc_OSType (linuxFluentdCfg r i inst certs stores sources) = OSTypeLinux"
  by (simp add: linuxFluentdCfg_def)

lemma converge_Inl:
  assumes "lc_converge r cli request i0 = Inl (res, err, cs)"
  shows "ClearDegraded \<notin> set (status_calls cs) \<and> keeps_state (State (Status i0)) cs \<and>
         (degrading cs \<or>
          res = Result_empty \<and> (conditions_failure cli request err \<or> windows_query_failure cli err)) \<and>
         \<not> all_applied cli cs \<and>
         (OSTypeWindows \<in> set (fluentd_OSTypes (applied cs)) \<longrightarrow> lc_HasWindowsNodes cli = Inr True) \<and>
         (OSTypeWindows \<in> set (fluentd_OSTypes (image_sets cs)) \<longrightarrow> lc_HasWindowsNodes cli = Inr True)"
  using assms
proof (cases rule: converge_cases)
  case (read_exit res' err' cs')
  with read_state_Inl [OF read_exit(2)] show ?thesis
    by (auto simp: reading_def all_applied_def split: sum.splits)
next
  case (linux_exit i inst certs stores sources cs0 res' err' cs1)
  from read_state_Inr [OF linux_exit(1)] have a: "reading (State (Status i0)) cs0" by simp
  note b = apply_linux_Inl [OF linux_exit(2)]
  have os: "OSTypeWindows \<notin> set (fluentd_OSTypes (applied cs1))"
  proof -
    from b have sub: "set (applied cs1) \<subseteq> set (linux_components r (i, inst, certs, stores, sources))" by simp
    obtain su linux cm where sh: "linux_components r (i, inst, certs, stores, sources) =
        [NewSetup su, Fluentd linux, CertificateManagement cm]" "fc_OSType linux = OSTypeLinux"
      using linux_components_shape by blast
    have "set xs \<subseteq> {NewSetup su, Fluentd linux, CertificateManagement cm} \<Longrightarrow>
        OSTypeWindows \<notin> set (fluentd_OSTypes xs)" for xs
      using sh(2) by (induction xs rule: fluentd_OSTypes.induct) auto
    with sub sh(1) show ?thesis by simp
  qed
  from a b os linux_exit(3) show ?thesis
    by (auto simp: reading_def keeps_state_def all_applied_def failed_apply_def list_all_iff
        intro: degrading_append split: sum.splits)
next
  case (windows_exit i inst certs stores sources cs0 cs1 res' err' cs2)
  from read_state_Inr [OF windows_exit(1)] have a: "reading (State (Status i0)) cs0" by simp
  note b = apply_linux_Inr [OF windows_exit(2)]
  note c = apply_windows_Inl [OF windows_exit(3)]
  from a b c windows_exit(4) show ?thesis
    by (auto simp: reading_def keeps_state_def all_applied_def failed_apply_def list_all_iff
        windows_query_failure_def
        intro: degrading_append split: sum.splits)
next
  case (complete i inst certs stores sources cs0 cs1 cs2)
  then show ?thesis by simp
qed

lemma converge_Inr:
  assumes "lc_converge r cli request i0 = Inr (i, cs)"
  shows "ClearDegraded \<notin> set (status_calls cs) \<and> keeps_state (State (Status i0)) cs \<and>
         State (Status i) = State (Status i0) \<and>
         (\<exists>rd b. lc_HasWindowsNodes cli = Inr b \<and>
            applied cs = linux_components r rd @ (if b then [windows_component r rd] else []) \<and>
            fluentd_OSTypes (image_sets cs) = (if b then [OSTypeLinux, OSTypeWindows] else [OSTypeLinux])) \<and>
         list_all (\<lambda>c. lc_CreateOrUpdateOrDelete cli c = None) (applied cs)"
  using assms
proof (cases rule: converge_cases)
  case (complete i' inst certs stores sources cs0 cs1 cs2)
  from read_state_Inr [OF complete(1)] have a: "reading (State (Status i0)) cs0"
      "State (Status i') = State (Status i0)" by simp_all
  note b = apply_linux_Inr [OF complete(2)]
  from apply_windows_Inr [OF complete(3)] obtain w where
    c: "lc_HasWindowsNodes cli = Inr w"
       "applied cs2 = (if w then [windows_component r (i', inst, certs, stores, sources)] else [])"
       "image_sets cs2 = (if w then [windows_component r (i', inst, certs, stores, sources)] else [])"
       "status_calls cs2 = []" "status_updates cs2 = []"
       "\<forall>c \<in> set (applied cs2). lc_CreateOrUpdateOrDelete cli c = None"
    by blast
  have shape: "\<exists>rd b. lc_HasWindowsNodes cli = Inr b \<and>
            applied cs = linux_components r rd @ (if b then [windows_component r rd] else []) \<and>
            fluentd_OSTypes (image_sets cs) = (if b then [OSTypeLinux, OSTypeWindows] else [OSTypeLinux])"
    using a b c complete(4)
    by (intro exI [of _ "(i', inst, certs, stores, sources)"] exI [of _ w])
       (simp add: reading_def)
  have ok: "list_all (\<lambda>c. lc_CreateOrUpdateOrDelete cli c = None) (applied cs)"
    using b c complete(4) a by (auto simp: list_all_iff reading_def)
  have quiet: "ClearDegraded \<notin> set (status_calls cs) \<and> keeps_state (State (Status i0)) cs"
    using a b c complete(4) by (simp add: reading_def keeps_state_def)
  from quiet ok shape a(2) complete(4) show ?thesis by simp
qed simp_all

lemma lc_finish_calls:
  "snd (snd (lc_finish cli i)) =
     StatusManager ClearDegraded #
     (if lc_IsAvailable cli
      then [StatusUpdate (i\<lparr>Status := (Status i)\<lparr>State := TigeraStatusReady\<rparr>\<rparr>)] else [])"
  by (simp add: lc_finish_def Let_def split: option.splits)

lemma lc_finish_result:
  "fst (lc_finish cli i) = (if lc_IsAvailable cli then Result_empty else \<lparr>RequeueAfter = StandardRetry\<rparr>)"
  "fst (snd (lc_finish cli i)) = (if lc_IsAvailable cli then lc_Status_Update_state cli else None)"
  by (simp_all add: lc_finish_def Let_def split: option.splits)

lemma Reconcile_cases:
  assumes "Reconcile r cli request = X"
  obtains
    (not_found) e where "GetLogCollector cli = Inl e" "IsNotFound e"
      "X = (Result_empty, None, [StatusManager OnCRNotFound])"
  | (read_error) e where "GetLogCollector cli = Inl e" "\<not> IsNotFound e"
      "X = (Result_empty, Some e,
            [StatusManager (SetDegraded ResourceReadError ''Error querying for LogCollector'' (Some e))])"
  | (exit) i0 res err cs where "GetLogCollector cli = Inr i0"
      "lc_converge r cli request i0 = Inl (res, err, cs)"
      "X = (res, err, [StatusManager OnCRFound] @ cs @ [StatusManager SetMetaData])"
  | (complete) i0 i cs where "GetLogCollector cli = Inr i0"
      "lc_converge r cli request i0 = Inr (i, cs)"
      "X = (fst (lc_finish cli i), fst (snd (lc_finish cli i)),
            [StatusManager OnCRFound] @ cs @ snd (snd (lc_finish cli i)) @ [StatusManager SetMetaData])"
proof (cases "GetLogCollector cli")
  case (Inl e)
  with assms not_found [of e] read_error [of e] show ?thesis
    by (cases "IsNotFound e") (auto simp: Reconcile_def)
next
  case (Inr i0)
  show ?thesis
  proof (cases "lc_converge r cli request i0")
    case (Inl x)
    obtain res err cs where "x = (res, err, cs)" by (metis prod.exhaust)
    with Inl Inr assms show ?thesis
      by (intro exit [of i0 res err cs]) (auto simp: Reconcile_def)
  next
    case conv: (Inr y)
    obtain i cs where "y = (i, cs)" by (metis prod.exhaust)
    with conv Inr assms show ?thesis
      by (intro complete [of i0 i cs]) (auto simp: Reconcile_def split: prod.splits)
  qed
qed

lemma degraded_after_last_SetDegraded [simp]:
  "degraded_after d (pre @ [SetDegraded reason msg e]) = Some reason"
  "degraded_after d (pre @ [SetDegraded reason msg e, SetMetaData]) = Some reason"
  by (induction d pre rule: degraded_after.induct) auto

lemma degraded_after_ClearDegraded [simp]:
  "degraded_after d (pre @ [ClearDegraded]) = None"
  by (induction d pre rule: degraded_after.induct) auto

lemma degraded_before_return_degraded:
  "degraded_before_return calls \<Longrightarrow> degraded_after d (status_calls calls) \<noteq> None"
  unfolding degraded_before_return_def by auto

lemma status_calls_finish [simp]:
  "status_calls (snd (snd (lc_finish cli i))) = [ClearDegraded]"
  by (simp add: lc_finish_calls)

lemma applied_finish [simp]: "applied (snd (snd (lc_finish cli i))) = []"
  by (simp add: lc_finish_calls)

lemma status_conditions_Inl:
  assumes "lc_status_conditions cli request i = Inl (res, err, cs)"
  shows "res = Result_empty \<and> conditions_failure cli request err \<and> status_calls cs = [] \<and>
         applied cs = []"
proof (cases "for_tigerastatus request")
  case False
  with assms show ?thesis
    by (auto simp: lc_status_conditions_def for_tigerastatus_def split: if_splits)
next
  case t: True
  show ?thesis
  proof (cases "lc_Get_TigeraStatus cli")
    case (Inl e)
    with t assms show ?thesis
      by (auto simp: lc_status_conditions_def for_tigerastatus_def conditions_failure_def)
  next
    case (Inr ts)
    show ?thesis
    proof (cases "lc_Status_Update_conditions cli")
      case None
      with Inr t assms show ?thesis
        by (simp add: lc_status_conditions_def for_tigerastatus_def Let_def)
    next
      case (Some e)
      with Inr t assms have "res = Result_empty" "err = Some e" "status_calls cs = []" "applied cs = []"
        by (auto simp: lc_status_conditions_def for_tigerastatus_def Let_def)
      with Inr t Some show ?thesis
        by (simp add: conditions_failure_def)
    qed
  qed
qed

lemma pre_apply_Inl: "pre_apply m \<Longrightarrow> m = Inl (res, err, cs) \<Longrightarrow> degrading cs"
  by (simp add: pre_apply_def exits_sat_def)

lemma read_state_Inl_path:
  assumes "lc_read_state r cli request i0 = Inl (res, err, cs)"
  shows "degrading cs \<or>
         res = Result_empty \<and> conditions_failure cli request err \<and> status_calls cs = [] \<and>
         applied cs = []"
  using assms unfolding lc_read_state_def
proof (cases rule: andThen_InlE)
  case 1
  from status_conditions_Inl [OF 1] show ?thesis by simp
next
  case (2 i1 cs1 cs2)
  have "pre_apply
     (andThen (lc_defaults cli i1) (\<lambda>instance.
      andThen (lc_prerequisites r cli) (\<lambda>license.
      andThen (lc_read_installation cli) (\<lambda>inst.
      andThen (lc_read_certificates r cli instance inst) (\<lambda>certs.
      andThen (lc_read_stores cli instance license (li_managedCluster inst) (lcert_trustedBundle certs)) (\<lambda>stores.
      andThen (lc_read_sources cli instance (li_installation inst)) (\<lambda>sources.
        Inr ((instance, inst, certs, stores, sources), []))))))))"
    by (intro pre_apply_andThen pre_apply_defaults pre_apply_prerequisites
        pre_apply_read_installation pre_apply_read_certificates pre_apply_read_stores
        pre_apply_read_sources pre_apply_Inr_Nil)
  from pre_apply_Inl [OF this 2(2)] 2(3) show ?thesis
    by (simp add: degrading_append)
qed

lemma converge_Inl_path:
  assumes "lc_converge r cli request i0 = Inl (res, err, cs)"
  shows "degrading cs \<or>
         res = Result_empty \<and> conditions_failure cli request err \<and> status_calls cs = [] \<and>
           applied cs = [] \<or>
         res = Result_empty \<and> windows_query_failure cli err \<and> length (applied cs) = 3 \<and>
           list_all (\<lambda>c. lc_CreateOrUpdateOrDelete cli c = None) (applied cs)"
  using assms
proof (cases rule: converge_cases)
  case (read_exit res' err' cs')
  with read_state_Inl_path [OF read_exit(2)] show ?thesis by blast
next
  case (linux_exit i inst certs stores sources cs0 res' err' cs1)
  from apply_linux_Inl [OF linux_exit(2)] linux_exit(3) show ?thesis
    by (simp add: degrading_append)
next
  case (windows_exit i inst certs stores sources cs0 cs1 res' err' cs2)
  from read_state_Inr [OF windows_exit(1)] have a: "applied cs0 = []"
    by (simp add: reading_def)
  note b = apply_linux_Inr [OF windows_exit(2)]
  note c = apply_windows_Inl [OF windows_exit(3)]
  show ?thesis
  proof (cases "degrading cs2")
    case True
    with windows_exit(4) show ?thesis
      using degrading_append [of cs2 "cs0 @ cs1"] by simp
  next
    case False
    with c have "cs2 = []" "res' = Result_empty" "windows_query_failure cli err'" by auto
    with a b windows_exit(4) show ?thesis
      by (simp add: list_all_iff)
  qed
next
  case (complete i inst certs stores sources cs0 cs1 cs2)
  then show ?thesis by simp
qed

lemma conditions_failure_outcome:
  assumes "GetLogCollector cli = Inr i0" and "for_tigerastatus request"
    and "lc_Get_TigeraStatus cli = Inl e \<or>
         \<not> isl (lc_Get_TigeraStatus cli) \<and> lc_Status_Update_conditions cli = Some e"
  shows "fst (Reconcile r cli request) = Result_empty \<and>
         fst (snd (Reconcile r cli request)) = Some e \<and>
         status_calls (snd (snd (Reconcile r cli request))) = [OnCRFound, SetMetaData] \<and>
         applied (snd (snd (Reconcile r cli request))) = []"
proof -
  have "\<exists>cs. lc_status_conditions cli request i0 = Inl (Result_empty, Some e, cs) \<and>
          status_calls cs = [] \<and> applied cs = []"
  proof (cases "lc_Get_TigeraStatus cli")
    case (Inl e')
    with assms(2,3) show ?thesis
      by (simp add: lc_status_conditions_def for_tigerastatus_def)
  next
    case (Inr ts)
    with assms(2,3) show ?thesis
      by (simp add: lc_status_conditions_def for_tigerastatus_def Let_def)
  qed
  then obtain cs where sc: "lc_status_conditions cli request i0 = Inl (Result_empty, Some e, cs)"
    and cs: "status_calls cs = []" "applied cs = []"
    by blast
  from sc have "lc_read_state r cli request i0 = Inl (Result_empty, Some e, cs)"
    by (simp add: lc_read_state_def andThen_def)
  then have "lc_converge r cli request i0 = Inl (Result_empty, Some e, cs)"
    by (simp add: lc_converge_def andThen_def)
  with assms(1) cs show ?thesis
    by (simp add: Reconcile_def)
qed



lemma status_updates_finish:
  "status_updates (snd (snd (lc_finish cli i))) =
     (if lc_IsAvailable cli
      then [i\<lparr>Status := (Status i)\<lparr>State := TigeraStatusReady\<rparr>\<rparr>] else [])"
  by (simp add: lc_finish_calls)

lemma completed:
  assumes "Reconcile r cli request = (res, err, calls)"
    and "ClearDegraded \<in> set (status_calls calls)"
  obtains i0 i cs where "GetLogCollector cli = Inr i0"
      "lc_converge r cli request i0 = Inr (i, cs)"
      "res = fst (lc_finish cli i)" "err = fst (snd (lc_finish cli i))"
      "calls = [StatusManager OnCRFound] @ cs @ snd (snd (lc_finish cli i)) @ [StatusManager SetMetaData]"
  using assms(1)
proof (cases rule: Reconcile_cases)
  case (not_found e)
  with assms(2) show ?thesis by simp
next
  case (read_error e)
  with assms(2) show ?thesis by simp
next
  case (exit i0 res' err' cs)
  with converge_Inl [OF exit(2)] assms(2) show ?thesis by simp
next
  case (complete i0 i cs)
  with that [of i0 i cs] show ?thesis by simp
qed


lemma image_sets_finish [simp]: "image_sets (snd (snd (lc_finish cli i))) = []"
  by (simp add: lc_finish_calls)

text \<open>
  C6. A fluentd component for Windows is rendered or applied only when the cluster has
  Windows nodes; in a reconcile that gets to apply all its components, the fluentd
  components rendered and applied are the one for Linux followed by the one for Windows
  when the cluster has Windows nodes, and the one for Linux alone when it has none.
\<close>

theorem Reconcile_windows_fluentd_iff_windows_nodes:
  assumes "Reconcile r cli request = (res, err, calls)"
  shows "(OSTypeWindows \<in> set (fluentd_OSTypes (image_sets calls)) \<or>
          OSTypeWindows \<in> set (fluentd_OSTypes (applied calls)) \<longrightarrow> lc_HasWindowsNodes cli = Inr True)
       \<and> (ClearDegraded \<in> set (status_calls calls) \<longrightarrow>
            (\<exists>b. lc_HasWindowsNodes cli = Inr b \<and>
                 fluentd_OSTypes (image_sets calls) = (if b then [OSTypeLinux, OSTypeWindows] else [OSTypeLinux]) \<and>
                 fluentd_OSTypes (applied calls) = (if b then [OSTypeLinux, OSTypeWindows] else [OSTypeLinux])))"
  using assms
proof (cases rule: Reconcile_cases)
  case (not_found e)
  then show ?thesis by simp
next
  case (read_error e)
  then show ?thesis by simp
next
  case (exit i0 res' err' cs)
  with converge_Inl [OF exit(2)] show ?thesis by auto
next
  case (complete i0 i cs)
  from converge_Inr [OF complete(2)] obtain rd b where
    sh: "lc_HasWindowsNodes cli = Inr b"
        "applied cs = linux_components r rd @ (if b then [windows_component r rd] else [])"
        "fluentd_OSTypes (image_sets cs) = (if b then [OSTypeLinux, OSTypeWindows] else [OSTypeLinux])"
    by blast
  have "applied calls = applied cs" "image_sets calls = image_sets cs" using complete(3) by simp_all
  with sh have "fluentd_OSTypes (applied calls) = (if b then [OSTypeLinux, OSTypeWindows] else [OSTypeLinux])"
     "fluentd_OSTypes (image_sets calls) = (if b then [OSTypeLinux, OSTypeWindows] else [OSTypeLinux])"
    by simp_all
  with sh(1) show ?thesis by (cases b) auto
qed

text \<open>
  C7. Once all components have been applied (\<open>ClearDegraded\<close> has been called): when
  the status manager reports available, the reconcile writes the instance with
  \<open>Status.State\<close> set to Ready and returns the empty result with the error of that
  update; when it does not, the reconcile writes nothing more, returns a requeue after
  the standard retry interval with a nil error, and every status update of the reconcile
  carries the state the instance was read with.
\<close>

theorem Reconcile_ready_iff_available:
  assumes "Reconcile r cli request = (res, err, calls)"
    and "ClearDegraded \<in> set (status_calls calls)"
  shows "\<exists>i0 i pre.
           GetLogCollector cli = Inr i0 \<and> State (Status i) = State (Status i0) \<and>
           keeps_state (State (Status i0)) pre \<and>
           (if lc_IsAvailable cli
            then calls = pre @ [StatusManager ClearDegraded,
                                StatusUpdate (i\<lparr>Status := (Status i)\<lparr>State := TigeraStatusReady\<rparr>\<rparr>),
                                StatusManager SetMetaData] \<and>
                 res = Result_empty \<and> err = lc_Status_Update_state cli
            else calls = pre @ [StatusManager ClearDegraded, StatusManager SetMetaData] \<and>
                 res = \<lparr>RequeueAfter = StandardRetry\<rparr> \<and> err = None)"
  using assms
proof (cases rule: completed)
  case (1 i0 i cs)
  from converge_Inr [OF 1(2)] have a: "keeps_state (State (Status i0)) cs"
    "State (Status i) = State (Status i0)" by simp_all
  from a(1) have k: "keeps_state (State (Status i0)) ([StatusManager OnCRFound] @ cs)"
    by (simp add: keeps_state_def)
  show ?thesis
    using 1(1) a(2) k 1(3,4,5)
    by (intro exI [of _ i0] exI [of _ i] exI [of _ "[StatusManager OnCRFound] @ cs"])
       (simp add: lc_finish_calls lc_finish_result)
qed

subsection \<open>The results at concrete inputs\<close>

lemmas lc_eval =
  Reconcile_def GetLogCollector_def lc_converge_def lc_read_state_def lc_status_conditions_def
  lc_defaults_def fillDefaults_def defaultCollectProcessPath_def defaultSyslog_def
  lc_prerequisites_def lc_read_installation_def lc_read_certificates_def lc_linseed_location_def
  lc_read_stores_def lc_s3_def lc_splunk_def lc_syslog_certificate_def lc_syslog_logtypes_def
  lc_read_sources_def lc_eks_def eksSourceOf_def getFluentdFilters_def getS3Credential_def
  getSplunkCredential_def getSysLogCertificate_def lc_apply_linux_def lc_apply_windows_def
  lc_finish_def andThen_def degraded_return_def Let_def
  setUp_def linuxFluentdCfg_def windowsFluentdCfg_def certificateComponent_def
  healthy_cluster_def plain_instance_def reconciler0_def request0_def tigerastatus_request_def
  unlicensed_cluster_def windows_cluster_def unavailable_cluster_def
  tigerastatus_unreadable_cluster_def ResourceName_def

lemma healthy_status_calls:
  "status_calls (snd (snd (Reconcile reconciler0 healthy_cluster request0))) =
     [OnCRFound, AddToStatusManager LogCollectorNamespace, ClearDegraded, SetMetaData]"
  by (simp add: lc_eval)

lemma windows_status_calls:
  "status_calls (snd (snd (Reconcile reconciler0 windows_cluster request0))) =
     [OnCRFound, AddToStatusManager LogCollectorNamespace, ClearDegraded, SetMetaData]"
  by (simp add: lc_eval)

lemma unavailable_status_calls:
  "status_calls (snd (snd (Reconcile reconciler0 unavailable_cluster request0))) =
     [OnCRFound, AddToStatusManager LogCollectorNamespace, ClearDegraded, SetMetaData]"
  by (simp add: lc_eval)

lemma unlicensed_outcome:
  "Reconcile reconciler0 unlicensed_cluster request0 =
     (\<lparr>RequeueAfter = StandardRetry\<rparr>, None,
      [StatusManager OnCRFound,
       StatusManager (SetDegraded ResourceNotFound ''License not found'' (Some (NotFound ''license not found''))),
       StatusManager SetMetaData])"
  by (simp add: lc_eval)




theorem Reconcile_windows_fluentd_iff_windows_nodes_witness:
  "fluentd_OSTypes (applied (snd (snd (Reconcile reconciler0 windows_cluster request0)))) =
     [OSTypeLinux, OSTypeWindows]
   \<and> fluentd_OSTypes (applied (snd (snd (Reconcile reconciler0 healthy_cluster request0)))) =
     [OSTypeLinux]"
proof -
  have hw: "Reconcile reconciler0 windows_cluster request0 =
     (fst (Reconcile reconciler0 windows_cluster request0),
      fst (snd (Reconcile reconciler0 windows_cluster request0)),
      snd (snd (Reconcile reconciler0 windows_cluster request0)))"
    by simp
  have cw: "ClearDegraded \<in> set (status_calls (snd (snd (Reconcile reconciler0 windows_cluster request0))))"
    by (simp add: windows_status_calls)
  have w: "lc_HasWindowsNodes windows_cluster = Inr True"
    by (simp add: windows_cluster_def healthy_cluster_def)
  have hh: "Reconcile reconciler0 healthy_cluster request0 =
     (fst (Reconcile reconciler0 healthy_cluster request0),
      fst (snd (Reconcile reconciler0 healthy_cluster request0)),
      snd (snd (Reconcile reconciler0 healthy_cluster request0)))"
    by simp
  have ch: "ClearDegraded \<in> set (status_calls (snd (snd (Reconcile reconciler0 healthy_cluster request0))))"
    by (simp add: healthy_status_calls)
  have n: "lc_HasWindowsNodes healthy_cluster = Inr False"
    by (simp add: healthy_cluster_def)
  from Reconcile_windows_fluentd_iff_windows_nodes [OF hw] cw w
       Reconcile_windows_fluentd_iff_windows_nodes [OF hh] ch n
  show ?thesis by auto
qed

theorem Reconcile_ready_iff_available_witness:
  "fst (Reconcile reconciler0 unavailable_cluster request0) = \<lparr>RequeueAfter = StandardRetry\<rparr>
   \<and> fst (snd (Reconcile reconciler0 unavailable_cluster request0)) = None
   \<and> status_updates (snd (snd (Reconcile reconciler0 unavailable_cluster request0))) = []
   \<and> fst (Reconcile reconciler0 healthy_cluster request0) = Result_empty
   \<and> map (\<lambda>i. State (Status i)) (status_updates (snd (snd (Reconcile reconciler0 healthy_cluster request0)))) =
       [TigeraStatusReady]"
proof -
  have hu: "Reconcile reconciler0 unavailable_cluster request0 =
     (fst (Reconcile reconciler0 unavailable_cluster request0),
      fst (snd (Reconcile reconciler0 unavailable_cluster request0)),
      snd (snd (Reconcile reconciler0 unavailable_cluster request0)))"
    by simp
  have cu: "ClearDegraded \<in> set (status_calls (snd (snd (Reconcile reconciler0 unavailable_cluster request0))))"
    by (simp add: unavailable_status_calls)
  have nu: "\<not> lc_IsAvailable unavailable_cluster"
    by (simp add: unavailable_cluster_def)
  have su: "status_updates (snd (snd (Reconcile reconciler0 unavailable_cluster request0))) = []"
    by (simp add: lc_eval)
  have hh: "Reconcile reconciler0 healthy_cluster request0 =
     (fst (Reconcile reconciler0 healthy_cluster request0),
      fst (snd (Reconcile reconciler0 healthy_cluster request0)),
      snd (snd (Reconcile reconciler0 healthy_cluster request0)))"
    by simp
  have ch: "ClearDegraded \<in> set (status_calls (snd (snd (Reconcile reconciler0 healthy_cluster request0))))"
    by (simp add: healthy_status_calls)
  have ah: "lc_IsAvailable healthy_cluster"
    by (simp add: healthy_cluster_def)
  have sh: "map (\<lambda>i. State (Status i)) (status_updates (snd (snd (Reconcile reconciler0 healthy_cluster request0)))) =
       [TigeraStatusReady]"
    by (simp add: lc_eval)
  from Reconcile_ready_iff_available [OF hu cu] nu su
       Reconcile_ready_iff_available [OF hh ch] ah sh
  show ?thesis by auto
qed

end
